theory Spec2Isabelle
  imports Complex_Main "HOL-Library.Sublist" "HOL-Library.Product_Lexorder"
    "HOL-Library.List_Lexorder" "HOL-Library.Char_ord" "HOL-Library.Multiset"
begin

section \<open>Data model: cells, rows, DataFrames\<close>

text \<open>
  A cell of a DataFrame is null (\<open>NaN\<close>, \<open>None\<close>, \<open>NaT\<close>), a number, a string or a
  timestamp. Numbers are exact rationals: rounding of binary floating point is outside
  the model. A timestamp is the number of nanoseconds since the epoch, as in pandas.
\<close>

datatype val = Null | Num rat | Str string | Time int

text \<open>
  Python exceptions raised by the package and by the pandas calls it makes. The
  argument is the message.
\<close>

datatype error = KeyError string | ValueError string | TypeError string

text \<open>
  A DataFrame is its ordered column index and its rows in order. A row is an association
  list from column names to cells; a name without an entry reads as null.
\<close>

type_synonym row = "(string \<times> val) list"

record table =
  columns :: "string list"
  rows :: "row list"

definition cell :: "row \<Rightarrow> string \<Rightarrow> val" where
  "cell r c = (case map_of r c of Some v \<Rightarrow> v | None \<Rightarrow> Null)"

text \<open>\<open>df[c]\<close>: the column as a list of cells; \<open>KeyError\<close> when the column is absent.\<close>

definition getitem :: "table \<Rightarrow> string \<Rightarrow> error + val list" where
  "getitem df c =
     (if c \<in> set (columns df) then Inr (map (\<lambda>r. cell r c) (rows df))
      else Inl (KeyError c))"

text \<open>
  \<open>df[c] = series\<close>: an existing column keeps its position, a new one is appended.
  The series comes from the same frame, so it has one cell for each row.
\<close>

definition set_cell :: "string \<Rightarrow> val \<Rightarrow> row \<Rightarrow> row" where
  "set_cell c v r =
     (if c \<in> fst ` set r then map (\<lambda>(k, w). if k = c then (k, v) else (k, w)) r
      else r @ [(c, v)])"

definition setitem :: "table \<Rightarrow> string \<Rightarrow> val list \<Rightarrow> table" where
  "setitem df c series =
     \<lparr>columns = (if c \<in> set (columns df) then columns df else columns df @ [c]),
      rows = map (\<lambda>(r, v). set_cell c v r) (zip (rows df) series)\<rparr>"

text \<open>\<open>df[[c1, ..., cn]]\<close> for names that are all columns of \<open>df\<close>.\<close>

definition select_columns :: "table \<Rightarrow> string list \<Rightarrow> table" where
  "select_columns df cols =
     \<lparr>columns = cols, rows = map (\<lambda>r. map (\<lambda>c. (c, cell r c)) cols) (rows df)\<rparr>"

section \<open>pandas: left merge\<close>

text \<open>
  \<open>left.merge(right, left_on=lk, right_on=rk, how="left", suffixes=(ls, rs))\<close>;
  \<open>on=k\<close> is \<open>lk = rk = k\<close>, and then the key column appears once. A key that is not a
  column raises \<open>KeyError\<close>. Column names that occur on both sides (the shared key
  apart) get the suffix of their side. Every left row is kept, in order: with each
  right row whose key cell equals its own (null keys match each other, as in pandas),
  or once with nulls when there is none.
\<close>

definition overlap :: "table \<Rightarrow> table \<Rightarrow> string \<Rightarrow> string \<Rightarrow> string list" where
  "overlap left right lk rk =
     filter (\<lambda>c. c \<in> set (columns right) \<and> \<not> (lk = rk \<and> c = lk)) (columns left)"

definition suffixed :: "string list \<Rightarrow> string \<Rightarrow> string \<Rightarrow> string" where
  "suffixed ov sfx c = (if c \<in> set ov then c @ sfx else c)"

definition right_columns :: "table \<Rightarrow> string \<Rightarrow> string \<Rightarrow> string list" where
  "right_columns right lk rk = filter (\<lambda>c. \<not> (lk = rk \<and> c = rk)) (columns right)"

definition joined_row ::
  "string list \<Rightarrow> (string \<Rightarrow> string) \<Rightarrow> string list \<Rightarrow> (string \<Rightarrow> string) \<Rightarrow>
   row \<Rightarrow> row option \<Rightarrow> row" where
  "joined_row lcols lname rcols rname l ro =
     map (\<lambda>c. (lname c, cell l c)) lcols @
     map (\<lambda>c. (rname c, case ro of None \<Rightarrow> Null | Some r \<Rightarrow> cell r c)) rcols"

definition matches :: "table \<Rightarrow> string \<Rightarrow> val \<Rightarrow> row list" where
  "matches right rk k = filter (\<lambda>r. cell r rk = k) (rows right)"

definition merge_left ::
  "table \<Rightarrow> table \<Rightarrow> string \<Rightarrow> string \<Rightarrow> string \<times> string \<Rightarrow> error + table" where
  "merge_left left right lk rk sfxs =
     (if rk \<notin> set (columns right) then Inl (KeyError rk)
      else if lk \<notin> set (columns left) then Inl (KeyError lk)
      else
        let ov = overlap left right lk rk;
            lname = suffixed ov (fst sfxs);
            rname = suffixed ov (snd sfxs);
            rcols = right_columns right lk rk;
            mk = joined_row (columns left) lname rcols rname
        in Inr \<lparr>columns = map lname (columns left) @ map rname rcols,
                rows = concat (map (\<lambda>l.
                         case matches right rk (cell l lk) of
                           [] \<Rightarrow> [mk l None]
                         | ms \<Rightarrow> map (\<lambda>r. mk l (Some r)) ms) (rows left))\<rparr>)"

text \<open>\<open>left.merge(right, on=k, how="left", suffixes=(ls, rs))\<close>.\<close>

definition merge_on :: "table \<Rightarrow> table \<Rightarrow> string \<Rightarrow> string \<times> string \<Rightarrow> error + table" where
  "merge_on left right k sfxs = merge_left left right k k sfxs"

section \<open>pandas: arithmetic and datetime access\<close>

text \<open>
  Elementwise product and quotient of two numeric columns: null in, null out. A cell
  that is not a number is reported as \<open>TypeError\<close>; arithmetic on object columns is
  outside the model.
\<close>

fun mul_val :: "val \<Rightarrow> val \<Rightarrow> error + val" where
  "mul_val (Num a) (Num b) = Inr (Num (a * b))"
| "mul_val Null (Num b) = Inr Null"
| "mul_val (Num a) Null = Inr Null"
| "mul_val Null Null = Inr Null"
| "mul_val _ _ = Inl (TypeError ''unsupported operand type(s) for *'')"

fun div_const :: "val \<Rightarrow> rat \<Rightarrow> error + val" where
  "div_const (Num a) d = Inr (Num (a / d))"
| "div_const Null d = Inr Null"
| "div_const _ d = Inl (TypeError ''unsupported operand type(s) for /'')"

text \<open>Run a fallible function over a list, stopping at the first error.\<close>

fun map_err :: "('a \<Rightarrow> error + 'b) \<Rightarrow> 'a list \<Rightarrow> error + 'b list" where
  "map_err f [] = Inr []"
| "map_err f (x # xs) =
     (case f x of Inl e \<Rightarrow> Inl e
      | Inr y \<Rightarrow> (case map_err f xs of Inl e \<Rightarrow> Inl e | Inr ys \<Rightarrow> Inr (y # ys)))"

definition mul_series :: "val list \<Rightarrow> val list \<Rightarrow> error + val list" where
  "mul_series xs ys = map_err (\<lambda>(x, y). mul_val x y) (zip xs ys)"

text \<open>
  Library functions that the model does not look into are its parameters: parsing of a
  non-datetime cell by \<open>pd.to_datetime(..., errors="coerce")\<close> (\<open>None\<close> is \<open>NaT\<close>), the
  \<open>.dt\<close> accessors used by the package, the truncation of a timestamp to the start of
  its month (\<open>.dt.to_period("M").dt.to_timestamp()\<close>), the text of a cell that is not a
  string (\<open>.astype(str)\<close>), and the square root of floating point.
\<close>

record pandas =
  to_datetime :: "val \<Rightarrow> int option"
  dt_year :: "int \<Rightarrow> int"
  dt_month :: "int \<Rightarrow> int"
  dt_quarter :: "int \<Rightarrow> int"
  dt_week :: "int \<Rightarrow> int"
  dt_day_name :: "int \<Rightarrow> string"
  month_start :: "int \<Rightarrow> int"
  astype_str :: "val \<Rightarrow> string"
  sqrt_float :: "rat \<Rightarrow> rat"

text \<open>
  \<open>pd.api.types.is_datetime64_any_dtype(df[c])\<close>: the column holds timestamps and
  \<open>NaT\<close> only.
\<close>

fun is_datetime_cell :: "val \<Rightarrow> bool" where
  "is_datetime_cell (Time t) = True"
| "is_datetime_cell Null = True"
| "is_datetime_cell _ = False"

definition is_datetime64_any_dtype :: "val list \<Rightarrow> bool" where
  "is_datetime64_any_dtype series = list_all is_datetime_cell series"

text \<open>\<open>pd.to_datetime(series, errors="coerce")\<close>: what cannot be parsed becomes null.\<close>

fun coerce_datetime :: "pandas \<Rightarrow> val \<Rightarrow> val" where
  "coerce_datetime pd (Time t) = Time t"
| "coerce_datetime pd Null = Null"
| "coerce_datetime pd v = (case to_datetime pd v of Some t \<Rightarrow> Time t | None \<Rightarrow> Null)"

text \<open>A \<open>.dt\<close> accessor on a datetime column: \<open>NaT\<close> gives null.\<close>

fun dt_num :: "(int \<Rightarrow> int) \<Rightarrow> val \<Rightarrow> val" where
  "dt_num f (Time t) = Num (of_int (f t))"
| "dt_num f _ = Null"

fun dt_str :: "(int \<Rightarrow> string) \<Rightarrow> val \<Rightarrow> val" where
  "dt_str f (Time t) = Str (f t)"
| "dt_str f _ = Null"

fun dt_time :: "(int \<Rightarrow> int) \<Rightarrow> val \<Rightarrow> val" where
  "dt_time f (Time t) = Time (f t)"
| "dt_time f _ = Null"

section \<open>modeling.py: ChinookModel\<close>

type_synonym tables = "string \<rightharpoonup> table"

text \<open>\<open>__init__\<close>: an empty dictionary is refused.\<close>

definition ChinookModel :: "tables \<Rightarrow> error + tables" where
  "ChinookModel tbls =
     (if tbls = Map.empty then Inl (ValueError ''`tables` must be a dictionary of pandas DataFrames.'')
      else Inr tbls)"

text \<open>\<open>sep.join(xs)\<close>.\<close>

fun join :: "string \<Rightarrow> string list \<Rightarrow> string" where
  "join sep [] = []"
| "join sep [x] = x"
| "join sep (x # y # ys) = x @ sep @ join sep (y # ys)"

definition check_required_tables :: "(string \<rightharpoonup> 'a) \<Rightarrow> string list \<Rightarrow> error + unit" where
  "check_required_tables tbls required =
     (let missing = filter (\<lambda>t. tbls t = None) required
      in if missing \<noteq> [] then Inl (KeyError (''Missing required tables: '' @ join '', '' missing))
         else Inr ())"

text \<open>Sequencing of fallible steps: the first exception ends the call.\<close>

definition bind :: "error + 'a \<Rightarrow> ('a \<Rightarrow> error + 'b) \<Rightarrow> error + 'b" where
  "bind m f = (case m of Inl e \<Rightarrow> Inl e | Inr x \<Rightarrow> f x)"

text \<open>\<open>self.tables[name]\<close>.\<close>

definition table_of :: "tables \<Rightarrow> string \<Rightarrow> error + table" where
  "table_of tbls name = (case tbls name of None \<Rightarrow> Inl (KeyError name) | Some t \<Rightarrow> Inr t)"

definition merge_table ::
  "tables \<Rightarrow> string \<Rightarrow> string \<Rightarrow> string \<times> string \<Rightarrow> table \<Rightarrow> error + table" where
  "merge_table tbls name k sfxs df =
     bind (table_of tbls name) (\<lambda>right. merge_on df right k sfxs)"

definition sales_required :: "string list" where
  "sales_required =
     [''invoiceline'', ''invoice'', ''customer'', ''track'', ''album'', ''artist'',
      ''genre'', ''mediatype'']"

definition important_cols :: "string list" where
  "important_cols =
     [''InvoiceLineId'', ''InvoiceId'', ''InvoiceDate'', ''CustomerId'', ''FirstName'',
      ''LastName'', ''Country'', ''City'', ''TrackId'', ''Name'', ''Title'', ''ArtistId'',
      ''Name_artist'', ''GenreId'', ''Name_genre'', ''MediaTypeId'', ''Name_media'',
      ''UnitPrice'', ''Quantity'', ''LineTotal'', ''Year'', ''Month'', ''Quarter'', ''Week'',
      ''DayOfWeek'']"

text \<open>The seven merges of \<open>sales_line_items\<close>, in the order of the source.\<close>

definition sales_joins :: "tables \<Rightarrow> table \<Rightarrow> error + table" where
  "sales_joins tbls df0 =
     bind (merge_table tbls ''invoice'' ''InvoiceId'' ('''', ''_invoice'') df0) (\<lambda>df1.
     bind (merge_table tbls ''customer'' ''CustomerId'' ('''', ''_customer'') df1) (\<lambda>df2.
     bind (merge_table tbls ''track'' ''TrackId'' ('''', ''_track'') df2) (\<lambda>df3.
     bind (merge_table tbls ''album'' ''AlbumId'' ('''', ''_album'') df3) (\<lambda>df4.
     bind (merge_table tbls ''artist'' ''ArtistId'' ('''', ''_artist'') df4) (\<lambda>df5.
     bind (merge_table tbls ''genre'' ''GenreId'' ('''', ''_genre'') df5) (\<lambda>df6.
     merge_table tbls ''mediatype'' ''MediaTypeId'' ('''', ''_media'') df6))))))"

text \<open>\<open>df["LineTotal"] = df["UnitPrice"] * df["Quantity"]\<close>.\<close>

definition add_line_total :: "table \<Rightarrow> error + table" where
  "add_line_total df =
     bind (getitem df ''UnitPrice'') (\<lambda>price.
     bind (getitem df ''Quantity'') (\<lambda>quantity.
     bind (mul_series price quantity) (\<lambda>total.
     Inr (setitem df ''LineTotal'' total))))"

text \<open>The coercion of \<open>InvoiceDate\<close>, when the column exists and is not of datetime type.\<close>

definition ensure_datetime :: "pandas \<Rightarrow> table \<Rightarrow> table" where
  "ensure_datetime pd df =
     (let dates = map (\<lambda>r. cell r ''InvoiceDate'') (rows df)
      in if ''InvoiceDate'' \<in> set (columns df) \<and> \<not> is_datetime64_any_dtype dates
         then setitem df ''InvoiceDate'' (map (coerce_datetime pd) dates)
         else df)"

definition dt_column :: "table \<Rightarrow> string \<Rightarrow> (val \<Rightarrow> val) \<Rightarrow> table" where
  "dt_column df c f = setitem df c (map (\<lambda>r. f (cell r ''InvoiceDate'')) (rows df))"

definition datetime_components :: "pandas \<Rightarrow> table \<Rightarrow> table" where
  "datetime_components pd df =
     (if ''InvoiceDate'' \<in> set (columns df) then
        let df1 = dt_column df ''Year'' (dt_num (dt_year pd));
            df2 = dt_column df1 ''Month'' (dt_num (dt_month pd));
            df3 = dt_column df2 ''Quarter'' (dt_num (dt_quarter pd));
            df4 = dt_column df3 ''Week'' (dt_num (dt_week pd))
        in dt_column df4 ''DayOfWeek'' (dt_str (dt_day_name pd))
      else df)"

definition sales_line_items :: "pandas \<Rightarrow> tables \<Rightarrow> error + table" where
  "sales_line_items pd tbls =
     bind (check_required_tables tbls sales_required) (\<lambda>_.
     bind (table_of tbls ''invoiceline'') (\<lambda>df0.
     bind (sales_joins tbls df0) (\<lambda>df7.
     bind (add_line_total df7) (\<lambda>df8.
       let df9 = ensure_datetime pd df8;
           df10 = datetime_components pd df9
       in Inr (select_columns df10 (filter (\<lambda>col. col \<in> set (columns df10)) important_cols))))))"

text \<open>
  \<open>catalog\<close>: the first merge has the default suffixes \<open>("_x", "_y")\<close>.
\<close>

definition add_duration :: "table \<Rightarrow> error + table" where
  "add_duration df =
     (if ''Milliseconds'' \<in> set (columns df) then
        bind (map_err (\<lambda>r. div_const (cell r ''Milliseconds'') 60000) (rows df)) (\<lambda>mins.
        Inr (setitem df ''DurationMin'' mins))
      else Inr df)"

definition catalog :: "tables \<Rightarrow> error + table" where
  "catalog tbls =
     bind (check_required_tables tbls [''track'', ''album'', ''artist'', ''genre'', ''mediatype'']) (\<lambda>_.
     bind (table_of tbls ''track'') (\<lambda>c0.
     bind (merge_table tbls ''album'' ''AlbumId'' (''_x'', ''_y'') c0) (\<lambda>c1.
     bind (merge_table tbls ''artist'' ''ArtistId'' ('''', ''_artist'') c1) (\<lambda>c2.
     bind (merge_table tbls ''genre'' ''GenreId'' ('''', ''_genre'') c2) (\<lambda>c3.
     bind (merge_table tbls ''mediatype'' ''MediaTypeId'' ('''', ''_media'') c3) (\<lambda>c4.
     add_duration c4))))))"

text \<open>
  \<open>customers_dim\<close>: the list of required tables holds \<open>employee\<close> as well as
  \<open>customer\<close>; the merge is guarded by a test for \<open>employee\<close> and \<open>SupportRepId\<close>.
\<close>

definition customers_dim :: "tables \<Rightarrow> error + table" where
  "customers_dim tbls =
     bind (check_required_tables tbls [''customer'', ''employee'']) (\<lambda>_.
     bind (table_of tbls ''customer'') (\<lambda>customers.
       if tbls ''employee'' \<noteq> None \<and> ''SupportRepId'' \<in> set (columns customers) then
         bind (table_of tbls ''employee'') (\<lambda>employee.
         merge_left customers employee ''SupportRepId'' ''EmployeeId'' ('''', ''_rep''))
       else Inr customers))"

section \<open>pandas: ordering, sorting, grouping\<close>

text \<open>
  The order of cells within a column: numbers by value, strings by code point,
  timestamps by time. The key puts a cell into a linear order; cells of different kinds
  in one column are outside what pandas sorts, and are ordered by kind here.
\<close>

fun val_key :: "val \<Rightarrow> nat \<times> rat \<times> string \<times> int" where
  "val_key Null = (0, 0, [], 0)"
| "val_key (Num x) = (1, x, [], 0)"
| "val_key (Str s) = (2, 0, s, 0)"
| "val_key (Time t) = (3, 0, [], t)"

text \<open>
  \<open>df.sort_values(c, ascending=...)\<close>: nulls go last in both directions. pandas leaves
  the order of equal keys open (its default sort is not stable); the model keeps them in
  their order of appearance.
\<close>

definition sort_rows :: "(row \<Rightarrow> val) \<Rightarrow> bool \<Rightarrow> row list \<Rightarrow> row list" where
  "sort_rows k ascending rs =
     (let present = filter (\<lambda>r. k r \<noteq> Null) rs;
          nulls = filter (\<lambda>r. k r = Null) rs
      in (if ascending then sort_key (\<lambda>r. val_key (k r)) present
          else rev (sort_key (\<lambda>r. val_key (k r)) (rev present))) @ nulls)"

definition sort_values :: "table \<Rightarrow> string \<Rightarrow> bool \<Rightarrow> table" where
  "sort_values df c ascending =
     \<lparr>columns = columns df, rows = sort_rows (\<lambda>r. cell r c) ascending (rows df)\<rparr>"

text \<open>\<open>.head(n)\<close>: a negative \<open>n\<close> leaves out the last \<open>-n\<close> rows.\<close>

definition head_list :: "int \<Rightarrow> 'a list \<Rightarrow> 'a list" where
  "head_list n xs = (if 0 \<le> n then take (nat n) xs else take (length xs - nat (- n)) xs)"

definition head :: "table \<Rightarrow> int \<Rightarrow> table" where
  "head df n = \<lparr>columns = columns df, rows = head_list n (rows df)\<rparr>"

text \<open>\<open>df.rename(columns={old: new})\<close>.\<close>

definition rename_column :: "table \<Rightarrow> string \<Rightarrow> string \<Rightarrow> table" where
  "rename_column df old new =
     \<lparr>columns = map (\<lambda>c. if c = old then new else c) (columns df),
      rows = map (map (\<lambda>(c, v). (if c = old then new else c, v))) (rows df)\<rparr>"

text \<open>
  A numeric column: numbers and nulls. Aggregation of a column with other cells is
  reported as \<open>TypeError\<close>. \<open>sum\<close> skips nulls, and is 0 when nothing is left.
\<close>

fun check_number :: "val \<Rightarrow> error + unit" where
  "check_number (Num x) = Inr ()"
| "check_number Null = Inr ()"
| "check_number _ = Inl (TypeError ''cannot aggregate a non-numeric column'')"

definition check_numeric :: "val list \<Rightarrow> error + unit" where
  "check_numeric vs = bind (map_err check_number vs) (\<lambda>_. Inr ())"

fun num_or_zero :: "val \<Rightarrow> rat" where
  "num_or_zero (Num x) = x"
| "num_or_zero _ = 0"

definition nansum :: "val list \<Rightarrow> rat" where
  "nansum vs = sum_list (map num_or_zero vs)"

text \<open>
  \<open>df.groupby(keys)\<close>: a row whose key has a null cell belongs to no group
  (\<open>dropna=True\<close>); the groups come in ascending order of their keys (\<open>sort=True\<close>).
\<close>

definition row_key :: "string list \<Rightarrow> row \<Rightarrow> val list" where
  "row_key keys r = map (cell r) keys"

definition group_keys :: "val list list \<Rightarrow> val list list" where
  "group_keys ks = sort_key (map val_key) (remdups (filter (\<lambda>k. Null \<notin> set k) ks))"

definition group_rows :: "string list \<Rightarrow> row list \<Rightarrow> val list \<Rightarrow> row list" where
  "group_rows keys rs k = filter (\<lambda>r. row_key keys r = k) rs"

text \<open>
  \<open>df.groupby(keys)[col].sum().reset_index()\<close>, from the key and the value of each row:
  one row for each group, with its key cells and the sum of its values.
\<close>

definition group_sums :: "string list \<Rightarrow> string \<Rightarrow> (val list \<times> val) list \<Rightarrow> row list" where
  "group_sums keys col kvs =
     map (\<lambda>k. zip keys k @ [(col, Num (nansum (map snd (filter (\<lambda>kv. fst kv = k) kvs))))])
       (group_keys (map fst kvs))"

definition groupby_sum :: "table \<Rightarrow> string list \<Rightarrow> string \<Rightarrow> error + table" where
  "groupby_sum df keys col =
     bind (map_err (getitem df) keys) (\<lambda>_.
     bind (getitem df col) (\<lambda>vs.
     bind (check_numeric vs) (\<lambda>_.
     Inr \<lparr>columns = keys @ [col],
          rows = group_sums keys col (zip (map (row_key keys) (rows df)) vs)\<rparr>)))"

section \<open>analytics.py: ChinookAnalyzer\<close>

record analyzer =
  sales_df :: table
  catalog_df :: "table option"

text \<open>
  \<open>__init__\<close>. The two frames are copied; the copy of the sales frame gets its
  \<open>InvoiceDate\<close> column coerced when it is not of datetime type. The names in the
  message come from a Python set, whose order is not fixed; the model lists them in the
  order \<open>InvoiceDate\<close>, \<open>LineTotal\<close>.
\<close>

definition coerce_invoice_date :: "pandas \<Rightarrow> table \<Rightarrow> table" where
  "coerce_invoice_date pd df =
     (let dates = map (\<lambda>r. cell r ''InvoiceDate'') (rows df)
      in if \<not> is_datetime64_any_dtype dates
         then setitem df ''InvoiceDate'' (map (coerce_datetime pd) dates)
         else df)"

definition ChinookAnalyzer :: "pandas \<Rightarrow> table \<Rightarrow> table option \<Rightarrow> error + analyzer" where
  "ChinookAnalyzer pd sales cat =
     (let missing = filter (\<lambda>c. c \<notin> set (columns sales)) [''InvoiceDate'', ''LineTotal'']
      in if missing \<noteq> []
         then Inl (KeyError (''Missing required columns in sales_df: '' @ join '', '' missing))
         else Inr \<lparr>sales_df = coerce_invoice_date pd sales, catalog_df = cat\<rparr>)"

text \<open>\<open>_check_column\<close>.\<close>

definition check_column :: "table \<Rightarrow> string \<Rightarrow> error + unit" where
  "check_column df col =
     (if col \<notin> set (columns df)
      then Inl (KeyError (''Required column '' @ [CHR 0x27] @ col @ [CHR 0x27] @ '' is missing.''))
      else Inr ())"

text \<open>\<open>revenue_by_month\<close>.\<close>

definition revenue_by_month :: "pandas \<Rightarrow> analyzer \<Rightarrow> error + table" where
  "revenue_by_month pd self =
     (let df = sales_df self;
          df1 = setitem df ''Month''
                  (map (\<lambda>r. dt_time (month_start pd) (cell r ''InvoiceDate'')) (rows df))
      in bind (groupby_sum df1 [''Month''] ''LineTotal'') (\<lambda>result.
         Inr (sort_values (rename_column result ''LineTotal'' ''Revenue'') ''Month'' True)))"

text \<open>
  The body shared by \<open>top_countries_by_revenue\<close>, \<open>top_genres_by_revenue\<close>,
  \<open>top_artists_by_revenue\<close> and \<open>customer_lifetime_value\<close>:
  \<open>groupby(keys)["LineTotal"].sum().sort_values(ascending=False).head(n).reset_index()\<close>
  and the renaming of the sum.
\<close>

definition top_by_revenue :: "table \<Rightarrow> string list \<Rightarrow> int \<Rightarrow> string \<Rightarrow> error + table" where
  "top_by_revenue df keys n name =
     bind (groupby_sum df keys ''LineTotal'') (\<lambda>totals.
     Inr (rename_column (head (sort_values totals ''LineTotal'' False) n) ''LineTotal'' name))"

definition top_countries_by_revenue :: "analyzer \<Rightarrow> int \<Rightarrow> error + table" where
  "top_countries_by_revenue self n =
     bind (check_column (sales_df self) ''Country'') (\<lambda>_.
     top_by_revenue (sales_df self) [''Country''] n ''Revenue'')"

definition top_genres_by_revenue :: "analyzer \<Rightarrow> int \<Rightarrow> error + table" where
  "top_genres_by_revenue self n =
     bind (check_column (sales_df self) ''Name_genre'') (\<lambda>_.
     top_by_revenue (sales_df self) [''Name_genre''] n ''Revenue'')"

definition top_artists_by_revenue :: "analyzer \<Rightarrow> int \<Rightarrow> error + table" where
  "top_artists_by_revenue self n =
     bind (check_column (sales_df self) ''Name_artist'') (\<lambda>_.
     top_by_revenue (sales_df self) [''Name_artist''] n ''Revenue'')"

definition customer_lifetime_value :: "analyzer \<Rightarrow> int \<Rightarrow> error + table" where
  "customer_lifetime_value self n =
     bind (check_column (sales_df self) ''CustomerId'') (\<lambda>_.
     top_by_revenue (sales_df self) [''CustomerId'', ''FirstName'', ''LastName''] n
       ''TotalRevenue'')"


section \<open>analytics.py: text analysis and duration statistics\<close>

text \<open>
  Strings of the model are ASCII: \<open>str.lower\<close> maps the letters \<open>A\<close> to \<open>Z\<close>, the
  pattern \<open>[^a-z\\s]\<close> keeps the lower-case letters and the ASCII whitespace, and
  \<open>str.split()\<close> cuts at runs of whitespace. Code points beyond ASCII are outside the
  model.
\<close>

definition lower_char :: "char \<Rightarrow> char" where
  "lower_char c =
     (let n = (of_char c :: nat) in if 65 \<le> n \<and> n \<le> 90 then char_of (n + 32) else c)"

definition is_space :: "char \<Rightarrow> bool" where
  "is_space c = ((of_char c :: nat) \<in> {9, 10, 11, 12, 13, 28, 29, 30, 31, 32})"

definition is_lower_letter :: "char \<Rightarrow> bool" where
  "is_lower_letter c = (97 \<le> (of_char c :: nat) \<and> (of_char c :: nat) \<le> 122)"

fun words_of :: "string \<Rightarrow> string \<Rightarrow> string list" where
  "words_of w [] = (if w = [] then [] else [w])"
| "words_of w (c # cs) =
     (if is_space c then (if w = [] then words_of [] cs else w # words_of [] cs)
      else words_of (w @ [c]) cs)"

definition str_split :: "string \<Rightarrow> string list" where
  "str_split s = words_of [] s"

text \<open>\<open>.str.lower().str.replace(r"[^a-z\\s]", "", regex=True).str.split()\<close> on one title.\<close>

definition title_words :: "string \<Rightarrow> string list" where
  "title_words s = str_split (filter (\<lambda>c. is_lower_letter c \<or> is_space c) (map lower_char s))"

text \<open>\<open>.astype(str)\<close> on a cell that is not null.\<close>

definition to_text :: "pandas \<Rightarrow> val \<Rightarrow> string" where
  "to_text pd v = (case v of Str s \<Rightarrow> s | _ \<Rightarrow> astype_str pd v)"

text \<open>
  \<open>pd.Series(words).value_counts()\<close>: the distinct words with their counts, the most
  frequent first. pandas leaves the order of equal counts open; the model keeps the order
  of first appearance.
\<close>

definition unique :: "'a list \<Rightarrow> 'a list" where
  "unique xs = rev (remdups (rev xs))"

definition value_counts :: "string list \<Rightarrow> (string \<times> nat) list" where
  "value_counts ws =
     rev (sort_key snd (rev (map (\<lambda>w. (w, count_list ws w)) (unique ws))))"

definition default_stopwords :: "string list" where
  "default_stopwords =
     [''the'', ''a'', ''and'', ''of'', ''to'', ''in'', ''on'', ''for'', ''with'']"

definition column :: "table \<Rightarrow> string \<Rightarrow> val list" where
  "column df c = map (\<lambda>r. cell r c) (rows df)"

definition top_words_in_track_titles ::
  "pandas \<Rightarrow> analyzer \<Rightarrow> int \<Rightarrow> string list option \<Rightarrow> error + table" where
  "top_words_in_track_titles pd self n stopwords =
     (case catalog_df self of
        None \<Rightarrow> Inl (ValueError ''catalog_df is required for text analysis.'')
      | Some cat \<Rightarrow>
          bind (check_column cat ''Name'') (\<lambda>_.
            let stop = (case stopwords of None \<Rightarrow> default_stopwords | Some s \<Rightarrow> s);
                titles = filter (\<lambda>v. v \<noteq> Null) (column cat ''Name'');
                words = map (\<lambda>v. title_words (to_text pd v)) titles;
                flat_words = filter (\<lambda>w. w \<notin> set stop) (concat words);
                word_counts = head_list n (value_counts flat_words)
            in Inr \<lparr>columns = [''Word'', ''Frequency''],
                    rows = map (\<lambda>(w, c). [(''Word'', Str w), (''Frequency'', Num (of_nat c))])
                             word_counts\<rparr>))"

text \<open>
  Linear interpolation between the order statistics of a sorted, non-empty list: the
  quantile of pandas and numpy.
\<close>

definition quantile :: "rat list \<Rightarrow> rat \<Rightarrow> rat" where
  "quantile s p =
     (let pos = p * of_nat (length s - 1);
          lo = nat \<lfloor>pos\<rfloor>;
          hi = min (lo + 1) (length s - 1)
      in s ! lo + (s ! hi - s ! lo) * (pos - of_nat lo))"

fun num_of :: "val \<Rightarrow> rat option" where
  "num_of (Num x) = Some x"
| "num_of _ = None"

definition present :: "'a option list \<Rightarrow> 'a list" where
  "present xs = [x. Some x \<leftarrow> xs]"

text \<open>
  \<open>Series.describe()\<close> of a numeric column: count, mean, sample standard deviation,
  minimum, quartiles and maximum of the values that are not null; a statistic that does
  not exist is null. The result is a Series indexed by the names of the statistics.
\<close>

definition describe :: "pandas \<Rightarrow> val list \<Rightarrow> row" where
  "describe pd vs =
     (let xs = sort (present (map num_of vs));
          n = length xs;
          mean = sum_list xs / of_nat n;
          var = sum_list (map (\<lambda>x. (x - mean) * (x - mean)) xs) / of_nat (n - 1);
          stat = (\<lambda>v. if n = 0 then Null else Num v)
      in [(''count'', Num (of_nat n)),
          (''mean'', stat mean),
          (''std'', if n \<le> 1 then Null else Num (sqrt_float pd var)),
          (''min'', stat (quantile xs 0)),
          (''25%'', stat (quantile xs (1 / 4))),
          (''50%'', stat (quantile xs (1 / 2))),
          (''75%'', stat (quantile xs (3 / 4))),
          (''max'', stat (quantile xs 1))])"

definition duration_stats :: "pandas \<Rightarrow> analyzer \<Rightarrow> error + row" where
  "duration_stats pd self =
     (case catalog_df self of
        None \<Rightarrow> Inl (ValueError ''catalog_df is required for duration analysis.'')
      | Some cat \<Rightarrow>
          bind (check_column cat ''DurationMin'') (\<lambda>_.
          bind (check_numeric (column cat ''DurationMin'')) (\<lambda>_.
          Inr (describe pd (column cat ''DurationMin'')))))"


section \<open>analytics.py: RFM analysis\<close>

text \<open>One day as a \<open>Timedelta\<close>, in nanoseconds; \<open>.max()\<close> of a datetime column skips \<open>NaT\<close>.\<close>

definition day_ns :: int where
  "day_ns = 86400000000000"

definition times :: "val list \<Rightarrow> int list" where
  "times vs = [t. Time t \<leftarrow> vs]"

definition max_time :: "val list \<Rightarrow> int option" where
  "max_time vs = (case times vs of [] \<Rightarrow> None | t # ts \<Rightarrow> Some (Max (set (t # ts))))"

text \<open>\<open>(today - x.max()).days\<close>: whole days, rounded down; null when a side is \<open>NaT\<close>.\<close>

definition recency :: "int option \<Rightarrow> val list \<Rightarrow> val" where
  "recency today dates =
     (case (today, max_time dates) of
        (Some t, Some m) \<Rightarrow> Num (of_int ((t - m) div day_ns))
      | _ \<Rightarrow> Null)"

text \<open>\<open>nunique\<close>: the number of distinct values that are not null.\<close>

definition nunique :: "val list \<Rightarrow> nat" where
  "nunique vs = length (remdups (filter (\<lambda>v. v \<noteq> Null) vs))"

text \<open>
  \<open>today\<close> and \<open>groupby("CustomerId").agg(Recency=..., Frequency=..., Monetary=...)
  .reset_index()\<close>.
\<close>

definition rfm_row :: "table \<Rightarrow> int option \<Rightarrow> val list \<Rightarrow> row" where
  "rfm_row df today k =
     (let g = group_rows [''CustomerId''] (rows df) k
      in zip [''CustomerId''] k @
         [(''Recency'', recency today (map (\<lambda>r. cell r ''InvoiceDate'') g)),
          (''Frequency'', Num (of_nat (nunique (map (\<lambda>r. cell r ''InvoiceId'') g)))),
          (''Monetary'', Num (nansum (map (\<lambda>r. cell r ''LineTotal'') g)))])"

definition rfm_aggregate :: "table \<Rightarrow> error + table" where
  "rfm_aggregate df =
     bind (getitem df ''InvoiceDate'') (\<lambda>dates.
     bind (getitem df ''CustomerId'') (\<lambda>_.
     bind (getitem df ''InvoiceId'') (\<lambda>_.
     bind (getitem df ''LineTotal'') (\<lambda>totals.
     bind (check_numeric totals) (\<lambda>_.
       let today = map_option (\<lambda>t. t + day_ns) (max_time dates)
       in Inr \<lparr>columns = [''CustomerId'', ''Recency'', ''Frequency'', ''Monetary''],
               rows = map (rfm_row df today)
                        (group_keys (map (row_key [''CustomerId'']) (rows df)))\<rparr>)))))"

text \<open>
  \<open>pd.qcut(series, q, labels=False, duplicates="drop")\<close>. The bin edges are the
  quantiles \<open>0, 1/q, ..., 1\<close> of the values that are not null; repeated edges are
  dropped. A value gets the number of its bin, counted from 0, the lowest edge belonging
  to the first bin; a null value, and a value that falls into no bin (when one edge is
  left), gets null. With \<open>duplicates="drop"\<close> and integer labels pandas raises no
  \<open>ValueError\<close> on a numeric series.
\<close>

definition quantile_edges :: "rat list \<Rightarrow> nat \<Rightarrow> rat list" where
  "quantile_edges xs q = map (\<lambda>i. quantile (sort xs) (of_nat i / of_nat q)) [0..<q + 1]"

definition drop_duplicates :: "rat list \<Rightarrow> rat list" where
  "drop_duplicates bins =
     (if length (unique bins) < length bins \<and> length bins \<noteq> 2 then unique bins else bins)"

definition searchsorted_left :: "rat list \<Rightarrow> rat \<Rightarrow> nat" where
  "searchsorted_left bins x = length (filter (\<lambda>b. b < x) bins)"

definition bins_to_cuts :: "rat list \<Rightarrow> rat option \<Rightarrow> int option" where
  "bins_to_cuts bins x =
     (case x of
        None \<Rightarrow> None
      | Some v \<Rightarrow>
          (let i = (if v = hd bins then 1 else searchsorted_left bins v)
           in if i = length bins \<or> i = 0 then None else Some (int i - 1)))"

definition qcut :: "rat option list \<Rightarrow> nat \<Rightarrow> error + int option list" where
  "qcut xs q =
     (if present xs = [] then Inr (map (\<lambda>_. None) xs)
      else Inr (map (bins_to_cuts (drop_duplicates (quantile_edges (present xs) q))) xs))"

text \<open>
  \<open>series.rank(method="first")\<close>: the position of a value in ascending order, equal
  values in their order of appearance; null stays null.
\<close>

definition rank_first :: "rat option list \<Rightarrow> rat option list" where
  "rank_first xs =
     map (\<lambda>i. case xs ! i of
                None \<Rightarrow> None
              | Some v \<Rightarrow>
                  Some (of_nat (1 + length (filter (\<lambda>y. y < v) (present xs)) +
                                length (filter (\<lambda>y. y = Some v) (take i xs)))))
       [0..<length xs]"

text \<open>The maximum of a series, nulls skipped; \<open>a - b\<close> on cells; \<open>.astype(int)\<close>.\<close>

definition nanmax :: "int option list \<Rightarrow> int option" where
  "nanmax bs = (case present bs of [] \<Rightarrow> None | b # bs' \<Rightarrow> Some (Max (set (b # bs'))))"

fun sub_opt :: "int option \<Rightarrow> int option \<Rightarrow> int option" where
  "sub_opt (Some a) (Some b) = Some (a - b)"
| "sub_opt _ _ = None"

definition astype_int :: "int option list \<Rightarrow> error + val list" where
  "astype_int bs =
     (if None \<in> set bs
      then Inl (ValueError ''Cannot convert non-finite values (NA or inf) to integer'')
      else Inr (map (\<lambda>b. case b of None \<Rightarrow> Null | Some i \<Rightarrow> Num (of_int i)) bs))"

text \<open>
  \<open>safe_qcut\<close>, the helper inside \<open>rfm_analysis\<close>: the rank-based binning is the handler
  of a \<open>ValueError\<close> of the first \<open>qcut\<close>; the conversion to integers is outside the
  \<open>try\<close>.
\<close>

definition safe_qcut :: "val list \<Rightarrow> nat \<Rightarrow> bool \<Rightarrow> error + val list" where
  "safe_qcut series q reverse =
     bind (case qcut (map num_of series) q of
             Inl (ValueError m) \<Rightarrow> qcut (rank_first (map num_of series)) q
           | other \<Rightarrow> other) (\<lambda>bins.
       let bins1 = map (map_option (\<lambda>b. b + 1)) bins;
           bins2 = (if reverse
                    then map (sub_opt (map_option (\<lambda>m. m + 1) (nanmax bins1))) bins1
                    else bins1)
       in astype_int bins2)"

fun add_val :: "val \<Rightarrow> val \<Rightarrow> val" where
  "add_val (Num a) (Num b) = Num (a + b)"
| "add_val _ _ = Null"

definition rfm_analysis :: "analyzer \<Rightarrow> error + table" where
  "rfm_analysis self =
     bind (check_column (sales_df self) ''CustomerId'') (\<lambda>_.
     bind (rfm_aggregate (sales_df self)) (\<lambda>rfm.
     bind (safe_qcut (column rfm ''Recency'') 5 True) (\<lambda>r_score.
       let rfm1 = setitem rfm ''R_Score'' r_score in
     bind (safe_qcut (column rfm1 ''Frequency'') 5 False) (\<lambda>f_score.
       let rfm2 = setitem rfm1 ''F_Score'' f_score in
     bind (safe_qcut (column rfm2 ''Monetary'') 5 False) (\<lambda>m_score.
       let rfm3 = setitem rfm2 ''M_Score'' m_score;
           rfm4 = setitem rfm3 ''RFM_Score''
                    (map (\<lambda>r. add_val (add_val (cell r ''R_Score'') (cell r ''F_Score''))
                                 (cell r ''M_Score'')) (rows rfm3))
       in Inr (sort_values rfm4 ''RFM_Score'' False))))))"

section \<open>DataFrames as objects\<close>

text \<open>
  The definitions above take a DataFrame as a value. To say which objects an operation
  changes, the methods are given a second time with the frames as objects: a store
  holds the frames that exist, a reference is an index into it. A statement of the
  source that builds a frame (\<open>copy\<close>, \<open>merge\<close>, \<open>groupby(...).sum().reset_index()\<close>,
  \<open>sort_values\<close>, \<open>head\<close>, \<open>df[[...]]\<close>) allocates; an assignment \<open>df[c] = s\<close> and
  \<open>rename(..., inplace=True)\<close> overwrite the frame they are applied to; \<open>copy\<close> is a deep
  copy, and a merge shares nothing with its operands. The contents of the frames are
  computed by the functions of the sections above.
\<close>

type_synonym ref = nat
type_synonym store = "table list"
type_synonym 'a io = "store \<Rightarrow> (error + 'a) \<times> store"

definition io_return :: "'a \<Rightarrow> 'a io" where
  "io_return x = (\<lambda>h. (Inr x, h))"

definition io_lift :: "error + 'a \<Rightarrow> 'a io" where
  "io_lift m = (\<lambda>h. (m, h))"

definition io_bind :: "'a io \<Rightarrow> ('a \<Rightarrow> 'b io) \<Rightarrow> 'b io" where
  "io_bind m f = (\<lambda>h. case m h of (Inl e, h') \<Rightarrow> (Inl e, h') | (Inr x, h') \<Rightarrow> f x h')"

definition new_frame :: "table \<Rightarrow> ref io" where
  "new_frame t = (\<lambda>h. (Inr (length h), h @ [t]))"

definition read_frame :: "ref \<Rightarrow> table io" where
  "read_frame a =
     (\<lambda>h. if a < length h then (Inr (h ! a), h) else (Inl (ValueError ''no such frame''), h))"

definition write_frame :: "ref \<Rightarrow> table \<Rightarrow> unit io" where
  "write_frame a t = (\<lambda>h. (Inr (), h[a := t]))"

text \<open>\<open>df.copy()\<close>.\<close>

definition copy_frame :: "ref \<Rightarrow> ref io" where
  "copy_frame a = io_bind (read_frame a) new_frame"

text \<open>A method of a frame that returns a new frame.\<close>

definition derive_frame :: "ref \<Rightarrow> (table \<Rightarrow> error + table) \<Rightarrow> ref io" where
  "derive_frame a f = io_bind (read_frame a) (\<lambda>df. io_bind (io_lift (f df)) new_frame)"

text \<open>A statement that changes a frame in place.\<close>

definition update_frame :: "ref \<Rightarrow> (table \<Rightarrow> error + table) \<Rightarrow> unit io" where
  "update_frame a f = io_bind (read_frame a) (\<lambda>df. io_bind (io_lift (f df)) (write_frame a))"

text \<open>\<open>left.merge(right, left_on=lk, right_on=rk, how="left", suffixes=sfxs)\<close>.\<close>

definition merge_frames :: "ref \<Rightarrow> ref \<Rightarrow> string \<Rightarrow> string \<Rightarrow> string \<times> string \<Rightarrow> ref io" where
  "merge_frames a b lk rk sfxs =
     io_bind (read_frame a) (\<lambda>left.
     io_bind (read_frame b) (\<lambda>right.
     io_bind (io_lift (merge_left left right lk rk sfxs)) new_frame))"

subsection \<open>ChinookModel\<close>

text \<open>\<open>self.tables\<close>: the dictionary handed to \<open>__init__\<close>, which keeps it as it is.\<close>

type_synonym frames = "string \<rightharpoonup> ref"

definition frame_of :: "frames \<Rightarrow> string \<Rightarrow> ref io" where
  "frame_of tbls name =
     (case tbls name of None \<Rightarrow> io_lift (Inl (KeyError name)) | Some a \<Rightarrow> io_return a)"

definition merge_frame_of ::
  "frames \<Rightarrow> string \<Rightarrow> string \<Rightarrow> string \<times> string \<Rightarrow> ref \<Rightarrow> ref io" where
  "merge_frame_of tbls name k sfxs df =
     io_bind (frame_of tbls name) (\<lambda>right. merge_frames df right k k sfxs)"

definition sales_line_items_io :: "pandas \<Rightarrow> frames \<Rightarrow> ref io" where
  "sales_line_items_io pd tbls =
     io_bind (io_lift (check_required_tables tbls sales_required)) (\<lambda>_.
     io_bind (frame_of tbls ''invoiceline'') (\<lambda>invoiceline.
     io_bind (copy_frame invoiceline) (\<lambda>df0.
     io_bind (merge_frame_of tbls ''invoice'' ''InvoiceId'' ('''', ''_invoice'') df0) (\<lambda>df1.
     io_bind (merge_frame_of tbls ''customer'' ''CustomerId'' ('''', ''_customer'') df1) (\<lambda>df2.
     io_bind (merge_frame_of tbls ''track'' ''TrackId'' ('''', ''_track'') df2) (\<lambda>df3.
     io_bind (merge_frame_of tbls ''album'' ''AlbumId'' ('''', ''_album'') df3) (\<lambda>df4.
     io_bind (merge_frame_of tbls ''artist'' ''ArtistId'' ('''', ''_artist'') df4) (\<lambda>df5.
     io_bind (merge_frame_of tbls ''genre'' ''GenreId'' ('''', ''_genre'') df5) (\<lambda>df6.
     io_bind (merge_frame_of tbls ''mediatype'' ''MediaTypeId'' ('''', ''_media'') df6) (\<lambda>df7.
     io_bind (update_frame df7 add_line_total) (\<lambda>_.
     io_bind (update_frame df7 (\<lambda>df. Inr (ensure_datetime pd df))) (\<lambda>_.
     io_bind (update_frame df7 (\<lambda>df. Inr (datetime_components pd df))) (\<lambda>_.
     derive_frame df7 (\<lambda>df.
       Inr (select_columns df (filter (\<lambda>col. col \<in> set (columns df)) important_cols))))))))))))))))"

definition catalog_io :: "frames \<Rightarrow> ref io" where
  "catalog_io tbls =
     io_bind (io_lift (check_required_tables tbls
                [''track'', ''album'', ''artist'', ''genre'', ''mediatype''])) (\<lambda>_.
     io_bind (frame_of tbls ''track'') (\<lambda>track.
     io_bind (copy_frame track) (\<lambda>c0.
     io_bind (merge_frame_of tbls ''album'' ''AlbumId'' (''_x'', ''_y'') c0) (\<lambda>c1.
     io_bind (merge_frame_of tbls ''artist'' ''ArtistId'' ('''', ''_artist'') c1) (\<lambda>c2.
     io_bind (merge_frame_of tbls ''genre'' ''GenreId'' ('''', ''_genre'') c2) (\<lambda>c3.
     io_bind (merge_frame_of tbls ''mediatype'' ''MediaTypeId'' ('''', ''_media'') c3) (\<lambda>c4.
     io_bind (update_frame c4 add_duration) (\<lambda>_.
     io_return c4))))))))"

definition customers_dim_io :: "frames \<Rightarrow> ref io" where
  "customers_dim_io tbls =
     io_bind (io_lift (check_required_tables tbls [''customer'', ''employee''])) (\<lambda>_.
     io_bind (frame_of tbls ''customer'') (\<lambda>customer.
     io_bind (copy_frame customer) (\<lambda>customers.
     io_bind (read_frame customers) (\<lambda>df.
       if tbls ''employee'' \<noteq> None \<and> ''SupportRepId'' \<in> set (columns df) then
         io_bind (frame_of tbls ''employee'') (\<lambda>employee.
         merge_frames customers employee ''SupportRepId'' ''EmployeeId'' ('''', ''_rep''))
       else io_return customers))))"

subsection \<open>ChinookAnalyzer\<close>

record analyzer_obj =
  sales_ref :: ref
  catalog_ref :: "ref option"

text \<open>
  \<open>__init__\<close>: \<open>self.sales_df = sales_df.copy()\<close>, \<open>self.catalog_df = catalog_df.copy()\<close>
  when a catalog is given, the test for the required columns, and the assignment to
  \<open>self.sales_df["InvoiceDate"]\<close>.
\<close>

definition copy_optional :: "ref option \<Rightarrow> ref option io" where
  "copy_optional cat =
     (case cat of None \<Rightarrow> io_return None
      | Some c \<Rightarrow> io_bind (copy_frame c) (\<lambda>c'. io_return (Some c')))"

definition ChinookAnalyzer_io :: "pandas \<Rightarrow> ref \<Rightarrow> ref option \<Rightarrow> analyzer_obj io" where
  "ChinookAnalyzer_io pd sales cat =
     io_bind (copy_frame sales) (\<lambda>s.
     io_bind (copy_optional cat) (\<lambda>c.
     io_bind (read_frame s) (\<lambda>df.
       let missing = filter (\<lambda>col. col \<notin> set (columns df)) [''InvoiceDate'', ''LineTotal'']
       in if missing \<noteq> []
          then io_lift (Inl (KeyError (''Missing required columns in sales_df: '' @
                                        join '', '' missing)))
          else io_bind (update_frame s (\<lambda>df. Inr (coerce_invoice_date pd df))) (\<lambda>_.
               io_return \<lparr>sales_ref = s, catalog_ref = c\<rparr>))))"

definition check_column_io :: "ref \<Rightarrow> string \<Rightarrow> unit io" where
  "check_column_io a col = io_bind (read_frame a) (\<lambda>df. io_lift (check_column df col))"

definition revenue_by_month_io :: "pandas \<Rightarrow> analyzer_obj \<Rightarrow> ref io" where
  "revenue_by_month_io pd self =
     io_bind (copy_frame (sales_ref self)) (\<lambda>df.
     io_bind (update_frame df (\<lambda>t. Inr (setitem t ''Month''
                (map (\<lambda>r. dt_time (month_start pd) (cell r ''InvoiceDate'')) (rows t))))) (\<lambda>_.
     io_bind (derive_frame df (\<lambda>t. groupby_sum t [''Month''] ''LineTotal'')) (\<lambda>result.
     io_bind (update_frame result (\<lambda>t. Inr (rename_column t ''LineTotal'' ''Revenue''))) (\<lambda>_.
     derive_frame result (\<lambda>t. Inr (sort_values t ''Month'' True))))))"

definition top_by_revenue_io :: "ref \<Rightarrow> string list \<Rightarrow> int \<Rightarrow> string \<Rightarrow> ref io" where
  "top_by_revenue_io a keys n name =
     io_bind (derive_frame a (\<lambda>t.
                bind (groupby_sum t keys ''LineTotal'') (\<lambda>totals.
                Inr (head (sort_values totals ''LineTotal'' False) n)))) (\<lambda>result.
     io_bind (update_frame result (\<lambda>t. Inr (rename_column t ''LineTotal'' name))) (\<lambda>_.
     io_return result))"

definition top_countries_by_revenue_io :: "analyzer_obj \<Rightarrow> int \<Rightarrow> ref io" where
  "top_countries_by_revenue_io self n =
     io_bind (check_column_io (sales_ref self) ''Country'') (\<lambda>_.
     top_by_revenue_io (sales_ref self) [''Country''] n ''Revenue'')"

definition top_genres_by_revenue_io :: "analyzer_obj \<Rightarrow> int \<Rightarrow> ref io" where
  "top_genres_by_revenue_io self n =
     io_bind (check_column_io (sales_ref self) ''Name_genre'') (\<lambda>_.
     top_by_revenue_io (sales_ref self) [''Name_genre''] n ''Revenue'')"

definition top_artists_by_revenue_io :: "analyzer_obj \<Rightarrow> int \<Rightarrow> ref io" where
  "top_artists_by_revenue_io self n =
     io_bind (check_column_io (sales_ref self) ''Name_artist'') (\<lambda>_.
     top_by_revenue_io (sales_ref self) [''Name_artist''] n ''Revenue'')"

definition customer_lifetime_value_io :: "analyzer_obj \<Rightarrow> int \<Rightarrow> ref io" where
  "customer_lifetime_value_io self n =
     io_bind (check_column_io (sales_ref self) ''CustomerId'') (\<lambda>_.
     top_by_revenue_io (sales_ref self) [''CustomerId'', ''FirstName'', ''LastName''] n
       ''TotalRevenue'')"

text \<open>\<open>rfm[c] = safe_qcut(rfm[src], q=5, reverse=reverse)\<close>.\<close>

definition set_score :: "string \<Rightarrow> string \<Rightarrow> bool \<Rightarrow> table \<Rightarrow> error + table" where
  "set_score c src reverse rfm =
     bind (safe_qcut (column rfm src) 5 reverse) (\<lambda>score. Inr (setitem rfm c score))"

definition set_rfm_score :: "table \<Rightarrow> table" where
  "set_rfm_score rfm =
     setitem rfm ''RFM_Score''
       (map (\<lambda>r. add_val (add_val (cell r ''R_Score'') (cell r ''F_Score'')) (cell r ''M_Score''))
          (rows rfm))"

definition rfm_analysis_io :: "analyzer_obj \<Rightarrow> ref io" where
  "rfm_analysis_io self =
     io_bind (check_column_io (sales_ref self) ''CustomerId'') (\<lambda>_.
     io_bind (derive_frame (sales_ref self) rfm_aggregate) (\<lambda>rfm.
     io_bind (update_frame rfm (set_score ''R_Score'' ''Recency'' True)) (\<lambda>_.
     io_bind (update_frame rfm (set_score ''F_Score'' ''Frequency'' False)) (\<lambda>_.
     io_bind (update_frame rfm (set_score ''M_Score'' ''Monetary'' False)) (\<lambda>_.
     io_bind (update_frame rfm (\<lambda>t. Inr (set_rfm_score t))) (\<lambda>_.
     derive_frame rfm (\<lambda>t. Inr (sort_values t ''RFM_Score'' False))))))))"

text \<open>
  \<open>top_words_in_track_titles\<close>: \<open>reset_index()\<close> builds the frame of the counts, whose
  two columns are then named by the assignment to \<open>word_counts.columns\<close>.
\<close>

definition word_counts :: "pandas \<Rightarrow> table \<Rightarrow> int \<Rightarrow> string list option \<Rightarrow> table" where
  "word_counts pd cat n stopwords =
     (let stop = (case stopwords of None \<Rightarrow> default_stopwords | Some s \<Rightarrow> s);
          titles = filter (\<lambda>v. v \<noteq> Null) (column cat ''Name'');
          words = map (\<lambda>v. title_words (to_text pd v)) titles;
          flat_words = filter (\<lambda>w. w \<notin> set stop) (concat words)
      in \<lparr>columns = [''index'', ''count''],
          rows = map (\<lambda>(w, c). [(''index'', Str w), (''count'', Num (of_nat c))])
                   (head_list n (value_counts flat_words))\<rparr>)"

definition set_columns :: "string list \<Rightarrow> table \<Rightarrow> table" where
  "set_columns cols df = \<lparr>columns = cols, rows = map (\<lambda>r. zip cols (map snd r)) (rows df)\<rparr>"

definition top_words_in_track_titles_io ::
  "pandas \<Rightarrow> analyzer_obj \<Rightarrow> int \<Rightarrow> string list option \<Rightarrow> ref io" where
  "top_words_in_track_titles_io pd self n stopwords =
     (case catalog_ref self of
        None \<Rightarrow> io_lift (Inl (ValueError ''catalog_df is required for text analysis.''))
      | Some c \<Rightarrow>
          io_bind (check_column_io c ''Name'') (\<lambda>_.
          io_bind (derive_frame c (\<lambda>cat. Inr (word_counts pd cat n stopwords))) (\<lambda>counts.
          io_bind (update_frame counts (\<lambda>t. Inr (set_columns [''Word'', ''Frequency''] t))) (\<lambda>_.
          io_return counts))))"

text \<open>\<open>duration_stats\<close> returns a Series, which is a value here.\<close>

definition duration_stats_io :: "pandas \<Rightarrow> analyzer_obj \<Rightarrow> row io" where
  "duration_stats_io pd self =
     (case catalog_ref self of
        None \<Rightarrow> io_lift (Inl (ValueError ''catalog_df is required for duration analysis.''))
      | Some c \<Rightarrow>
          io_bind (check_column_io c ''DurationMin'') (\<lambda>_.
          io_bind (read_frame c) (\<lambda>cat.
          io_lift (bind (check_numeric (column cat ''DurationMin'')) (\<lambda>_.
                   Inr (describe pd (column cat ''DurationMin'')))))))"

section \<open>Predicates used to state the properties\<close>

definition key_unique :: "table \<Rightarrow> string \<Rightarrow> bool" where
  "key_unique t k = distinct (map (\<lambda>r. cell r k) (rows t))"

definition sales_keys :: "(string \<times> string) list" where
  "sales_keys =
     [(''invoice'', ''InvoiceId''), (''customer'', ''CustomerId''), (''track'', ''TrackId''),
      (''album'', ''AlbumId''), (''artist'', ''ArtistId''), (''genre'', ''GenreId''),
      (''mediatype'', ''MediaTypeId'')]"

definition joined_keys_unique :: "tables \<Rightarrow> bool" where
  "joined_keys_unique tbls =
     list_all (\<lambda>(name, k). case tbls name of None \<Rightarrow> True | Some t \<Rightarrow> key_unique t k) sales_keys"

text \<open>Row predicates that later column assignments keep.\<close>

definition line_total_ok :: "row \<Rightarrow> bool" where
  "line_total_ok r \<longleftrightarrow> mul_val (cell r ''UnitPrice'') (cell r ''Quantity'') = Inr (cell r ''LineTotal'')"

fun is_missing_tables_error :: "error \<Rightarrow> bool" where
  "is_missing_tables_error (KeyError m) = prefix ''Missing required tables: '' m"
| "is_missing_tables_error _ = False"

section \<open>A small store, used to run the definitions\<close>

definition frame :: "string list \<Rightarrow> val list list \<Rightarrow> table" where
  "frame cols cells = \<lparr>columns = cols, rows = map (zip cols) cells\<rparr>"

definition example_pandas :: pandas where
  "example_pandas =
     \<lparr>to_datetime = (\<lambda>v. None), dt_year = (\<lambda>t. 2021), dt_month = (\<lambda>t. 1),
      dt_quarter = (\<lambda>t. 1), dt_week = (\<lambda>t. 1), dt_day_name = (\<lambda>t. ''Friday''),
      month_start = (\<lambda>t. t - t mod 30), astype_str = (\<lambda>v. []),
      sqrt_float = (\<lambda>x. x)\<rparr>"

definition example_invoiceline :: table where
  "example_invoiceline =
     frame [''InvoiceLineId'', ''InvoiceId'', ''TrackId'', ''UnitPrice'', ''Quantity'']
       [[Num 1, Num 1, Num 1, Num (99 / 100), Num 2],
        [Num 2, Num 7, Num 1, Num 1, Num 3]]"

definition example_tables :: tables where
  "example_tables =
     [''invoiceline'' \<mapsto> example_invoiceline,
      ''invoice'' \<mapsto> frame [''InvoiceId'', ''CustomerId'', ''InvoiceDate''] [[Num 1, Num 5, Time 0]],
      ''customer'' \<mapsto> frame [''CustomerId'', ''FirstName'', ''SupportRepId''] [[Num 5, Str ''Ann'', Num 3]],
      ''track'' \<mapsto> frame [''TrackId'', ''Name'', ''AlbumId'', ''GenreId'', ''MediaTypeId'', ''UnitPrice'']
                   [[Num 1, Str ''Song'', Num 1, Num 1, Num 1, Num 1]],
      ''album'' \<mapsto> frame [''AlbumId'', ''Title'', ''ArtistId''] [[Num 1, Str ''Album'', Num 1]],
      ''artist'' \<mapsto> frame [''ArtistId'', ''Name''] [[Num 1, Str ''Artist'']],
      ''genre'' \<mapsto> frame [''GenreId'', ''Name''] [[Num 1, Str ''Rock'']],
      ''mediatype'' \<mapsto> frame [''MediaTypeId'', ''Name''] [[Num 1, Str ''MPEG'']]]"

section \<open>Totals and dated rows\<close>


definition has_invoice_date :: "pandas \<Rightarrow> row \<Rightarrow> bool" where
  "has_invoice_date pd r \<longleftrightarrow> coerce_datetime pd (cell r ''InvoiceDate'') \<noteq> Null"

definition dated_rows :: "pandas \<Rightarrow> table \<Rightarrow> table" where
  "dated_rows pd df = \<lparr>columns = columns df, rows = filter (has_invoice_date pd) (rows df)\<rparr>"

text \<open>
  What \<open>revenue_by_month\<close> reads of a row of the sales table given to the constructor:
  the month of its coerced invoice date, as a group key, and its line total. The second
  definition is the table built from these pairs.
\<close>

definition month_key :: "pandas \<Rightarrow> row \<Rightarrow> val list \<times> val" where
  "month_key pd r =
     ([dt_time (month_start pd) (coerce_datetime pd (cell r ''InvoiceDate''))],
      cell r ''LineTotal'')"

definition revenue_table :: "pandas \<Rightarrow> row list \<Rightarrow> table" where
  "revenue_table pd rs =
     sort_values
       (rename_column
          \<lparr>columns = [''Month'', ''LineTotal''],
           rows = group_sums [''Month''] ''LineTotal'' (map (month_key pd) rs)\<rparr>
          ''LineTotal'' ''Revenue'')
       ''Month'' True"

text \<open>
  A sales table with one dated row, one row without invoice date and one row whose
  invoice date cannot be parsed, and the monthly revenue computed from it.
\<close>

definition undated_sales :: table where
  "undated_sales =
     frame [''InvoiceDate'', ''LineTotal'']
       [[Time 0, Num 2], [Null, Num 3], [Str ''n/a'', Num 4]]"

definition undated_revenue :: table where
  "undated_revenue = frame [''Month'', ''Revenue''] [[Time 0, Num 2]]"

text \<open>A catalog without the rows whose title is null, and a catalog with such a row.\<close>

definition drop_null_titles :: "table \<Rightarrow> table" where
  "drop_null_titles df =
     \<lparr>columns = columns df, rows = filter (\<lambda>r. cell r ''Name'' \<noteq> Null) (rows df)\<rparr>"

definition example_catalog :: table where
  "example_catalog =
     frame [''TrackId'', ''Name'']
       [[Num 1, Str ''The Sun Rises''], [Num 2, Null], [Num 3, Str ''Sun and Moon'']]"

definition example_analyzer :: analyzer where
  "example_analyzer = \<lparr>sales_df = undated_sales, catalog_df = Some example_catalog\<rparr>"

section \<open>RFM records\<close>

text \<open>
  A cell that holds an integer between two bounds; two rows with the same recency,
  frequency and monetary value, and with the same three scores; the rows of one customer.
\<close>

definition score_in :: "row \<Rightarrow> string \<Rightarrow> int \<Rightarrow> int \<Rightarrow> bool" where
  "score_in r c lo hi =
     (case cell r c of
        Num x \<Rightarrow> of_int \<lfloor>x\<rfloor> = x \<and> of_int lo \<le> x \<and> x \<le> of_int hi
      | _ \<Rightarrow> False)"

definition same_rfm :: "row \<Rightarrow> row \<Rightarrow> bool" where
  "same_rfm r r' \<longleftrightarrow>
     cell r ''Recency'' = cell r' ''Recency'' \<and> cell r ''Frequency'' = cell r' ''Frequency'' \<and>
     cell r ''Monetary'' = cell r' ''Monetary''"

definition same_scores :: "row \<Rightarrow> row \<Rightarrow> bool" where
  "same_scores r r' \<longleftrightarrow>
     cell r ''R_Score'' = cell r' ''R_Score'' \<and> cell r ''F_Score'' = cell r' ''F_Score'' \<and>
     cell r ''M_Score'' = cell r' ''M_Score''"

definition rfm_score :: "row \<Rightarrow> rat" where
  "rfm_score r = num_or_zero (cell r ''RFM_Score'')"


text \<open>
  Four customers: A and D spent 100 on one invoice ten days before the day after the
  last invoice, B spent 500 on five invoices, the last one a day before, C spent 50 on
  one invoice a hundred days before.
\<close>

definition example_sales :: table where
  "example_sales =
     frame [''CustomerId'', ''InvoiceId'', ''InvoiceDate'', ''LineTotal'']
       [[Str ''A'', Num 1, Time (90 * day_ns), Num 100],
        [Str ''B'', Num 2, Time (99 * day_ns), Num 100],
        [Str ''B'', Num 3, Time (98 * day_ns), Num 100],
        [Str ''B'', Num 4, Time (97 * day_ns), Num 100],
        [Str ''B'', Num 5, Time (96 * day_ns), Num 100],
        [Str ''B'', Num 6, Time (95 * day_ns), Num 100],
        [Str ''C'', Num 7, Time 0, Num 50],
        [Str ''D'', Num 8, Time (90 * day_ns), Num 100]]"

definition example_rfm_analyzer :: analyzer where
  "example_rfm_analyzer = \<lparr>sales_df = example_sales, catalog_df = None\<rparr>"











section \<open>Predicates on operations over the store\<close>

text \<open>
  \<open>unchanged m h\<close>: the frames of \<open>h\<close> are the same after \<open>m\<close> has run from \<open>h\<close>, whether it
  returns or raises. \<open>returns_new m h\<close>: the frame returned is none of the frames of \<open>h\<close>, and
  it exists. \<open>owns_copies m h\<close>: the same for the frames of a new analyzer.
\<close>

definition unchanged :: "'a io \<Rightarrow> store \<Rightarrow> bool" where
  "unchanged m h \<longleftrightarrow> take (length h) (snd (m h)) = h"

definition returns_new :: "ref io \<Rightarrow> store \<Rightarrow> bool" where
  "returns_new m h \<longleftrightarrow>
     (case m h of (Inl e, h') \<Rightarrow> True | (Inr a, h') \<Rightarrow> length h \<le> a \<and> a < length h')"

definition owns_copies :: "analyzer_obj io \<Rightarrow> store \<Rightarrow> bool" where
  "owns_copies m h \<longleftrightarrow>
     (case m h of (Inl e, h') \<Rightarrow> True
      | (Inr self, h') \<Rightarrow>
          length h \<le> sales_ref self \<and> sales_ref self < length h' \<and>
          (case catalog_ref self of None \<Rightarrow> True
           | Some c \<Rightarrow> length h \<le> c \<and> c < length h' \<and> c \<noteq> sales_ref self))"

text \<open>
  \<open>preserves n P m Q\<close>: run from a store of at least \<open>n\<close> frames whose number satisfies
  \<open>P\<close>, \<open>m\<close> leaves the first \<open>n\<close> frames as they are and removes none, and what it returns
  satisfies \<open>Q\<close> with the number of frames it leaves.
\<close>

definition preserves ::
  "nat \<Rightarrow> (nat \<Rightarrow> bool) \<Rightarrow> 'a io \<Rightarrow> ('a \<Rightarrow> nat \<Rightarrow> bool) \<Rightarrow> bool" where
  "preserves n P m Q \<longleftrightarrow>
     (\<forall>h. n \<le> length h \<longrightarrow> P (length h) \<longrightarrow>
        (case m h of (r, h') \<Rightarrow>
           length h \<le> length h' \<and> take n h' = take n h \<and>
           (case r of Inl e \<Rightarrow> True | Inr x \<Rightarrow> Q x (length h'))))"

text \<open>A reference made since the store had \<open>n\<close> frames.\<close>

definition fresh :: "nat \<Rightarrow> ref \<Rightarrow> nat \<Rightarrow> bool" where
  "fresh n a l \<longleftrightarrow> n \<le> a \<and> a < l"

definition fresh_analyzer :: "nat \<Rightarrow> analyzer_obj \<Rightarrow> nat \<Rightarrow> bool" where
  "fresh_analyzer n self l \<longleftrightarrow>
     fresh n (sales_ref self) l \<and>
     (case catalog_ref self of None \<Rightarrow> True | Some c \<Rightarrow> fresh n c l \<and> c \<noteq> sales_ref self)"

text \<open>
  The tables and the analyzer that a dictionary of references and an analyzer object stand
  for in a store, and the value that an operation over the store returns: the frame
  behind the reference, or the exception.
\<close>

definition tables_at :: "store \<Rightarrow> frames \<Rightarrow> tables" where
  "tables_at h tbls = (\<lambda>name. map_option (\<lambda>a. h ! a) (tbls name))"

definition valid_frames :: "store \<Rightarrow> frames \<Rightarrow> bool" where
  "valid_frames h tbls \<longleftrightarrow> (\<forall>name a. tbls name = Some a \<longrightarrow> a < length h)"

definition frame_result :: "ref io \<Rightarrow> store \<Rightarrow> error + table" where
  "frame_result m h = (case m h of (Inl e, h') \<Rightarrow> Inl e | (Inr a, h') \<Rightarrow> Inr (h' ! a))"

definition analyzer_at :: "store \<Rightarrow> analyzer_obj \<Rightarrow> analyzer" where
  "analyzer_at h self =
     \<lparr>sales_df = h ! sales_ref self, catalog_df = map_option (\<lambda>c. h ! c) (catalog_ref self)\<rparr>"

definition valid_analyzer :: "store \<Rightarrow> analyzer_obj \<Rightarrow> bool" where
  "valid_analyzer h self \<longleftrightarrow>
     sales_ref self < length h \<and> (\<forall>c. catalog_ref self = Some c \<longrightarrow> c < length h)"

definition analyzer_result :: "analyzer_obj io \<Rightarrow> store \<Rightarrow> error + analyzer" where
  "analyzer_result m h =
     (case m h of (Inl e, h') \<Rightarrow> Inl e | (Inr self, h') \<Rightarrow> Inr (analyzer_at h' self))"

text \<open>The example tables and frames as objects.\<close>

definition example_store :: store where
  "example_store =
     map (\<lambda>name. case example_tables name of None \<Rightarrow> \<lparr>columns = [], rows = []\<rparr> | Some t \<Rightarrow> t)
       sales_required @ [undated_sales, example_catalog]"

definition example_frames :: frames where
  "example_frames = map_of (zip sales_required [0 ..< length sales_required])"

section \<open>Properties of the Modeler\<close>

lemma bind_Inr: "bind m f = Inr y \<longleftrightarrow> (\<exists>x. m = Inr x \<and> f x = Inr y)"
  by (cases m) (simp_all add: bind_def)

lemma bind_Inl: "bind m f = Inl e \<longleftrightarrow> (m = Inl e \<or> (\<exists>x. m = Inr x \<and> f x = Inl e))"
  by (cases m) (simp_all add: bind_def)

lemma filter_key_le_one:
  "distinct (map f xs) \<Longrightarrow> length (filter (\<lambda>x. f x = k) xs) \<le> 1"
proof (induction xs)
  case Nil
  then show ?case by simp
next
  case (Cons x xs)
  show ?case
  proof (cases "f x = k")
    case True
    with Cons.prems have "k \<notin> f ` set xs" by auto
    then have "filter (\<lambda>x. f x = k) xs = []" by (auto simp: filter_empty_conv)
    with True show ?thesis by simp
  next
    case False
    with Cons show ?thesis by simp
  qed
qed

lemma length_concat_singletons:
  "(\<And>x. x \<in> set xs \<Longrightarrow> length (f x) = 1) \<Longrightarrow> length (concat (map f xs)) = length xs"
  by (induction xs) simp_all

lemma merge_left_length:
  assumes "merge_left left right lk rk sfxs = Inr t" and "key_unique right rk"
  shows "length (rows t) = length (rows left)"
proof -
  have one: "length (case matches right rk k of [] \<Rightarrow> [g None] | ms \<Rightarrow> map (\<lambda>r. g (Some r)) ms) = 1"
    for k and g :: "row option \<Rightarrow> row"
  proof -
    have "length (matches right rk k) \<le> 1"
      using assms(2) filter_key_le_one [of "\<lambda>r. cell r rk" "rows right" k]
      by (simp add: key_unique_def matches_def)
    then show ?thesis by (cases "matches right rk k") simp_all
  qed
  from assms(1) have "rows t = concat (map (\<lambda>l.
        case matches right rk (cell l lk) of
          [] \<Rightarrow> [joined_row (columns left) (suffixed (overlap left right lk rk) (fst sfxs))
                   (right_columns right lk rk) (suffixed (overlap left right lk rk) (snd sfxs)) l None]
        | ms \<Rightarrow> map (\<lambda>r. joined_row (columns left) (suffixed (overlap left right lk rk) (fst sfxs))
                   (right_columns right lk rk) (suffixed (overlap left right lk rk) (snd sfxs)) l (Some r)) ms)
        (rows left))"
    by (auto simp: merge_left_def Let_def split: if_splits)
  then show ?thesis
    by (simp add: length_concat_singletons one)
qed

lemma merge_table_length:
  assumes "merge_table tbls name k sfxs df = Inr t"
    and "case tbls name of None \<Rightarrow> True | Some r \<Rightarrow> key_unique r k"
  shows "length (rows t) = length (rows df)"
  using assms
  by (auto simp: merge_table_def merge_on_def bind_Inr table_of_def
      split: option.splits intro: merge_left_length)

lemma sales_joins_length:
  assumes "sales_joins tbls df0 = Inr df7" and "joined_keys_unique tbls"
  shows "length (rows df7) = length (rows df0)"
proof -
  from assms(1) obtain df1 df2 df3 df4 df5 df6 where
    m: "merge_table tbls ''invoice'' ''InvoiceId'' ('''', ''_invoice'') df0 = Inr df1"
       "merge_table tbls ''customer'' ''CustomerId'' ('''', ''_customer'') df1 = Inr df2"
       "merge_table tbls ''track'' ''TrackId'' ('''', ''_track'') df2 = Inr df3"
       "merge_table tbls ''album'' ''AlbumId'' ('''', ''_album'') df3 = Inr df4"
       "merge_table tbls ''artist'' ''ArtistId'' ('''', ''_artist'') df4 = Inr df5"
       "merge_table tbls ''genre'' ''GenreId'' ('''', ''_genre'') df5 = Inr df6"
       "merge_table tbls ''mediatype'' ''MediaTypeId'' ('''', ''_media'') df6 = Inr df7"
    unfolding sales_joins_def bind_Inr by blast
  from assms(2) have u:
    "case tbls ''invoice'' of None \<Rightarrow> True | Some r \<Rightarrow> key_unique r ''InvoiceId''"
    "case tbls ''customer'' of None \<Rightarrow> True | Some r \<Rightarrow> key_unique r ''CustomerId''"
    "case tbls ''track'' of None \<Rightarrow> True | Some r \<Rightarrow> key_unique r ''TrackId''"
    "case tbls ''album'' of None \<Rightarrow> True | Some r \<Rightarrow> key_unique r ''AlbumId''"
    "case tbls ''artist'' of None \<Rightarrow> True | Some r \<Rightarrow> key_unique r ''ArtistId''"
    "case tbls ''genre'' of None \<Rightarrow> True | Some r \<Rightarrow> key_unique r ''GenreId''"
    "case tbls ''mediatype'' of None \<Rightarrow> True | Some r \<Rightarrow> key_unique r ''MediaTypeId''"
    by (simp_all add: joined_keys_unique_def sales_keys_def)
  show ?thesis
    using merge_table_length [OF m(1) u(1)] merge_table_length [OF m(2) u(2)]
      merge_table_length [OF m(3) u(3)] merge_table_length [OF m(4) u(4)]
      merge_table_length [OF m(5) u(5)] merge_table_length [OF m(6) u(6)]
      merge_table_length [OF m(7) u(7)]
    by simp
qed

lemma map_err_Inr: "map_err f xs = Inr ys \<Longrightarrow> list_all2 (\<lambda>x y. f x = Inr y) xs ys"
  by (induction xs arbitrary: ys) (auto split: sum.splits)

lemma map_err_length: "map_err f xs = Inr ys \<Longrightarrow> length ys = length xs"
  by (drule map_err_Inr) (simp add: list_all2_lengthD)

lemma rows_setitem_length:
  "length series = length (rows df) \<Longrightarrow> length (rows (setitem df c series)) = length (rows df)"
  by (simp add: setitem_def)

lemma getitem_Inr: "getitem df c = Inr s \<longleftrightarrow> c \<in> set (columns df) \<and> s = map (\<lambda>r. cell r c) (rows df)"
  by (auto simp: getitem_def)

lemma add_line_total_length:
  "add_line_total df = Inr df' \<Longrightarrow> length (rows df') = length (rows df)"
  by (auto simp: add_line_total_def bind_Inr getitem_Inr mul_series_def setitem_def
      dest!: map_err_length)

lemma ensure_datetime_length: "length (rows (ensure_datetime pd df)) = length (rows df)"
  by (simp add: ensure_datetime_def Let_def setitem_def)

lemma dt_column_length: "length (rows (dt_column df c f)) = length (rows df)"
  by (simp add: dt_column_def setitem_def)

lemma datetime_components_length: "length (rows (datetime_components pd df)) = length (rows df)"
  by (simp add: datetime_components_def Let_def dt_column_length)

lemma select_columns_length: "length (rows (select_columns df cols)) = length (rows df)"
  by (simp add: select_columns_def)

text \<open>
  Claim C2. When the join key is unique in each of the seven joined tables (invoice,
  customer, track, album, artist, genre, mediatype), the table returned by
  \<open>sales_line_items\<close> has exactly as many rows as the raw \<open>invoiceline\<close> table.
\<close>

theorem sales_line_items_row_count:
  assumes "sales_line_items pd tbls = Inr result"
    and "tbls ''invoiceline'' = Some invoiceline"
    and "joined_keys_unique tbls"
  shows "length (rows result) = length (rows invoiceline)"
proof -
  from assms(1,2) obtain df7 df8 where
    j: "sales_joins tbls invoiceline = Inr df7" and
    a: "add_line_total df7 = Inr df8" and
    r: "result = select_columns (datetime_components pd (ensure_datetime pd df8))
          (filter (\<lambda>col. col \<in> set (columns (datetime_components pd (ensure_datetime pd df8))))
             important_cols)"
    by (auto simp: sales_line_items_def bind_Inr table_of_def Let_def)
  show ?thesis
    using sales_joins_length [OF j assms(3)] add_line_total_length [OF a]
    by (simp add: r select_columns_length datetime_components_length ensure_datetime_length)
qed


lemma cell_set_cell: "cell (set_cell c v r) k = (if k = c then v else cell r k)"
proof (cases "c \<in> fst ` set r")
  case True
  have "map_of (map (\<lambda>(k, w). if k = c then (k, v) else (k, w)) r) k =
        (if k = c then (if c \<in> fst ` set r then Some v else None) else map_of r k)"
    by (induction r) (force split: if_splits)+
  with True show ?thesis by (simp add: cell_def set_cell_def)
next
  case False
  then have "map_of r c = None" by (simp add: map_of_eq_None_iff)
  with False show ?thesis
    by (auto simp: cell_def set_cell_def map_add_def split: option.splits)
qed

lemma cell_select: "cell (map (\<lambda>c. (c, f c)) cols) k = (if k \<in> set cols then f k else Null)"
  by (induction cols) (auto simp: cell_def)

lemma rows_setitem_map:
  "rows (setitem df c (map g (rows df))) = map (\<lambda>r. set_cell c (g r) r) (rows df)"
  by (simp add: setitem_def zip_map2 zip_same_conv_map)

lemma columns_setitem: "set (columns (setitem df c s)) = insert c (set (columns df))"
  by (auto simp: setitem_def)

lemma line_total_ok_set_cell:
  "c \<notin> {''UnitPrice'', ''Quantity'', ''LineTotal''} \<Longrightarrow> line_total_ok r \<Longrightarrow> line_total_ok (set_cell c v r)"
  by (auto simp: line_total_ok_def cell_set_cell)

lemma setitem_map_keeps:
  assumes "c \<notin> {''UnitPrice'', ''Quantity'', ''LineTotal''}"
    and "\<forall>r \<in> set (rows df). line_total_ok r"
  shows "\<forall>r \<in> set (rows (setitem df c (map g (rows df)))). line_total_ok r"
  using assms by (auto simp: rows_setitem_map intro!: line_total_ok_set_cell)

lemma add_line_total_ok:
  assumes "add_line_total df = Inr df'"
  shows "\<forall>r \<in> set (rows df'). line_total_ok r"
    and "{''UnitPrice'', ''Quantity'', ''LineTotal''} \<subseteq> set (columns df')"
proof -
  from assms obtain total where
    cols: "''UnitPrice'' \<in> set (columns df)" "''Quantity'' \<in> set (columns df)" and
    m: "mul_series (map (\<lambda>r. cell r ''UnitPrice'') (rows df)) (map (\<lambda>r. cell r ''Quantity'') (rows df)) = Inr total" and
    d: "df' = setitem df ''LineTotal'' total"
    by (auto simp: add_line_total_def bind_Inr getitem_Inr)
  from m have l2: "list_all2 (\<lambda>r v. mul_val (cell r ''UnitPrice'') (cell r ''Quantity'') = Inr v) (rows df) total"
    by (auto simp: mul_series_def zip_map_map zip_same_conv_map list_all2_map1 dest!: map_err_Inr)
  show "\<forall>r \<in> set (rows df'). line_total_ok r"
  proof
    fix r assume "r \<in> set (rows df')"
    then obtain r0 v where z: "(r0, v) \<in> set (zip (rows df) total)" and r: "r = set_cell ''LineTotal'' v r0"
      by (auto simp: d setitem_def)
    from l2 z have "mul_val (cell r0 ''UnitPrice'') (cell r0 ''Quantity'') = Inr v"
      by (auto simp: list_all2_iff)
    then show "line_total_ok r" by (simp add: r line_total_ok_def cell_set_cell)
  qed
  show "{''UnitPrice'', ''Quantity'', ''LineTotal''} \<subseteq> set (columns df')"
    using cols by (simp add: d columns_setitem)
qed

lemma ensure_datetime_ok:
  assumes "\<forall>r \<in> set (rows df). line_total_ok r"
  shows "\<forall>r \<in> set (rows (ensure_datetime pd df)). line_total_ok r"
proof -
  have "\<forall>r \<in> set (rows (setitem df ''InvoiceDate''
          (map (\<lambda>r. coerce_datetime pd (cell r ''InvoiceDate'')) (rows df)))). line_total_ok r"
    by (rule setitem_map_keeps [OF _ assms]) simp
  with assms show ?thesis by (simp add: ensure_datetime_def Let_def comp_def)
qed

lemma ensure_datetime_columns: "set (columns df) \<subseteq> set (columns (ensure_datetime pd df))"
  by (auto simp: ensure_datetime_def Let_def columns_setitem)

lemma dt_column_ok:
  assumes "c \<notin> {''UnitPrice'', ''Quantity'', ''LineTotal''}"
    and "\<forall>r \<in> set (rows df). line_total_ok r"
  shows "\<forall>r \<in> set (rows (dt_column df c f)). line_total_ok r"
  unfolding dt_column_def by (rule setitem_map_keeps [OF assms])

lemma dt_column_columns: "set (columns (dt_column df c f)) = insert c (set (columns df))"
  by (simp add: dt_column_def columns_setitem)

lemma datetime_components_ok:
  assumes "\<forall>r \<in> set (rows df). line_total_ok r"
  shows "\<forall>r \<in> set (rows (datetime_components pd df)). line_total_ok r"
proof -
  have 1: "\<forall>r \<in> set (rows (dt_column df ''Year'' f1)). line_total_ok r" for f1
    by (rule dt_column_ok [OF _ assms]) simp
  have 2: "\<forall>r \<in> set (rows (dt_column (dt_column df ''Year'' f1) ''Month'' f2)). line_total_ok r" for f1 f2
    by (rule dt_column_ok [OF _ 1]) simp
  have 3: "\<forall>r \<in> set (rows (dt_column (dt_column (dt_column df ''Year'' f1) ''Month'' f2) ''Quarter'' f3)).
             line_total_ok r" for f1 f2 f3
    by (rule dt_column_ok [OF _ 2]) simp
  have 4: "\<forall>r \<in> set (rows (dt_column (dt_column (dt_column (dt_column df ''Year'' f1) ''Month'' f2)
             ''Quarter'' f3) ''Week'' f4)). line_total_ok r" for f1 f2 f3 f4
    by (rule dt_column_ok [OF _ 3]) simp
  have 5: "\<forall>r \<in> set (rows (dt_column (dt_column (dt_column (dt_column (dt_column df ''Year'' f1) ''Month'' f2)
             ''Quarter'' f3) ''Week'' f4) ''DayOfWeek'' f5)). line_total_ok r" for f1 f2 f3 f4 f5
    by (rule dt_column_ok [OF _ 4]) simp
  show ?thesis using assms 5 by (simp add: datetime_components_def Let_def)
qed

lemma datetime_components_columns: "set (columns df) \<subseteq> set (columns (datetime_components pd df))"
  by (auto simp: datetime_components_def Let_def dt_column_columns)

lemma select_columns_ok:
  assumes "\<forall>r \<in> set (rows df). line_total_ok r"
    and "{''UnitPrice'', ''Quantity'', ''LineTotal''} \<subseteq> set cols"
  shows "\<forall>r \<in> set (rows (select_columns df cols)). line_total_ok r"
  using assms by (auto simp: select_columns_def line_total_ok_def cell_select)

text \<open>
  In every row of the result, the line total is what the elementwise product gives for
  the unit price and the quantity of that row.
\<close>

lemma sales_line_items_mul_val:
  assumes "sales_line_items pd tbls = Inr result" and "r \<in> set (rows result)"
  shows "mul_val (cell r ''UnitPrice'') (cell r ''Quantity'') = Inr (cell r ''LineTotal'')"
proof -
  from assms(1) obtain df7 df8 where
    a: "add_line_total df7 = Inr df8" and
    r: "result = select_columns (datetime_components pd (ensure_datetime pd df8))
          (filter (\<lambda>col. col \<in> set (columns (datetime_components pd (ensure_datetime pd df8))))
             important_cols)"
    by (auto simp: sales_line_items_def bind_Inr Let_def)
  let ?df10 = "datetime_components pd (ensure_datetime pd df8)"
  have ok: "\<forall>r \<in> set (rows ?df10). line_total_ok r"
    by (intro datetime_components_ok ensure_datetime_ok add_line_total_ok(1) [OF a])
  have "{''UnitPrice'', ''Quantity'', ''LineTotal''} \<subseteq> set (columns ?df10)"
    using add_line_total_ok(2) [OF a] ensure_datetime_columns [of df8 pd]
      datetime_components_columns [of "ensure_datetime pd df8" pd]
    by blast
  then have "{''UnitPrice'', ''Quantity'', ''LineTotal''} \<subseteq>
      set (filter (\<lambda>col. col \<in> set (columns ?df10)) important_cols)"
    by (simp add: important_cols_def)
  from select_columns_ok [OF ok this] assms(2) show ?thesis
    by (simp add: r line_total_ok_def)
qed


text \<open>A row without unit price or without quantity has no line total.\<close>

lemma sales_line_items_line_total_null:
  assumes "sales_line_items pd tbls = Inr result" and "r \<in> set (rows result)"
    and "cell r ''UnitPrice'' = Null \<or> cell r ''Quantity'' = Null"
  shows "cell r ''LineTotal'' = Null"
  using sales_line_items_mul_val [OF assms(1,2)] assms(3)
  by (cases "cell r ''UnitPrice''"; cases "cell r ''Quantity''") auto


lemma sublist_join: "t \<in> set xs \<Longrightarrow> sublist t (join sep xs)"
proof (induction sep xs rule: join.induct)
  case (1 sep)
  then show ?case by simp
next
  case (2 sep x)
  then show ?case by simp
next
  case (3 sep x y ys)
  show ?case
  proof (cases "t = x")
    case True
    then show ?thesis by (simp add: sublist_append_rightI)
  next
    case False
    with 3 have "sublist t (join sep (y # ys))" by simp
    then obtain ps ss where "join sep (y # ys) = ps @ t @ ss"
      by (auto simp: sublist_def)
    then have "join sep (x # y # ys) = (x @ sep @ ps) @ t @ ss" by simp
    then show ?thesis unfolding sublist_def by blast
  qed
qed

lemma check_required_tables_Inl:
  "\<exists>t \<in> set required. tbls t = None \<Longrightarrow>
   check_required_tables tbls required =
     Inl (KeyError (''Missing required tables: '' @ join '', '' (filter (\<lambda>t. tbls t = None) required)))"
  by (auto simp: check_required_tables_def Let_def filter_empty_conv)

lemma check_required_tables_Inr:
  "\<forall>t \<in> set required. tbls t \<noteq> None \<Longrightarrow> check_required_tables tbls required = Inr ()"
  by (auto simp: check_required_tables_def Let_def filter_empty_conv)

lemma map_err_Inl: "map_err f xs = Inl e \<Longrightarrow> \<exists>x \<in> set xs. f x = Inl e"
  by (induction xs) (auto split: sum.splits)

lemma mul_val_Inl: "mul_val x y = Inl e \<Longrightarrow> \<not> is_missing_tables_error e"
  by (cases "(x, y)" rule: mul_val.cases) auto

lemma bind_InlE:
  assumes "bind m f = Inl e"
  obtains "m = Inl e" | x where "m = Inr x" and "f x = Inl e"
  using assms by (auto simp: bind_Inl)

lemma merge_table_Inl:
  assumes "merge_table tbls name k sfxs df = Inl e"
    and "\<not> prefix ''Missing required tables: '' name"
    and "\<not> prefix ''Missing required tables: '' k"
  shows "\<not> is_missing_tables_error e"
proof -
  from assms(1) have "e = KeyError name \<or> e = KeyError k"
    by (auto simp: merge_table_def merge_on_def merge_left_def table_of_def bind_Inl Let_def
        split: option.splits if_splits)
  with assms(2,3) show ?thesis by auto
qed

lemma sales_joins_Inl:
  assumes "sales_joins tbls df = Inl e"
  shows "\<not> is_missing_tables_error e"
  using assms unfolding sales_joins_def
  by (elim bind_InlE) (erule merge_table_Inl, simp, simp)+

lemma add_line_total_Inl:
  assumes "add_line_total df = Inl e"
  shows "\<not> is_missing_tables_error e"
proof -
  from assms consider "e = KeyError ''UnitPrice''" | "e = KeyError ''Quantity''"
    | xs ys where "mul_series xs ys = Inl e"
    by (auto simp: add_line_total_def bind_Inl getitem_def split: if_splits)
  then show ?thesis
  proof cases
    case 3
    then obtain x y where "mul_val x y = Inl e"
      by (auto simp: mul_series_def dest!: map_err_Inl)
    then show ?thesis by (rule mul_val_Inl)
  qed auto
qed

text \<open>
  Claim C7. When at least one of the eight required tables is absent,
  \<open>sales_line_items\<close> raises the missing-table error, and its message lists every
  absent required table (in the order of the required list), not only the first. When
  none is absent, whatever \<open>sales_line_items\<close> raises is not a missing-table error.
\<close>

theorem sales_line_items_missing_tables:
  "((\<exists>t \<in> set sales_required. tbls t = None) \<longrightarrow>
      sales_line_items pd tbls =
        Inl (KeyError (''Missing required tables: '' @
               join '', '' (filter (\<lambda>t. tbls t = None) sales_required))) \<and>
      (\<forall>t \<in> set sales_required. tbls t = None \<longrightarrow>
         sublist t (join '', '' (filter (\<lambda>t. tbls t = None) sales_required)))) \<and>
   ((\<forall>t \<in> set sales_required. tbls t \<noteq> None) \<longrightarrow>
      (\<forall>e. sales_line_items pd tbls = Inl e \<longrightarrow> \<not> is_missing_tables_error e))"
proof (intro conjI impI allI)
  assume "\<exists>t \<in> set sales_required. tbls t = None"
  then show "sales_line_items pd tbls =
        Inl (KeyError (''Missing required tables: '' @
               join '', '' (filter (\<lambda>t. tbls t = None) sales_required)))"
    by (simp add: sales_line_items_def check_required_tables_Inl bind_def)
next
  show "\<forall>t \<in> set sales_required. tbls t = None \<longrightarrow>
         sublist t (join '', '' (filter (\<lambda>t. tbls t = None) sales_required))"
    by (auto intro: sublist_join)
next
  fix e
  assume present: "\<forall>t \<in> set sales_required. tbls t \<noteq> None"
    and err: "sales_line_items pd tbls = Inl e"
  from present obtain il where il: "tbls ''invoiceline'' = Some il"
    by (auto simp: sales_required_def)
  from err consider df0 where "sales_joins tbls df0 = Inl e"
    | df7 where "add_line_total df7 = Inl e"
    by (auto simp: sales_line_items_def check_required_tables_Inr [OF present] bind_Inl bind_Inr
        table_of_def il Let_def)
  then show "\<not> is_missing_tables_error e"
    by cases (auto dest: sales_joins_Inl add_line_total_Inl)
qed

text \<open>
  Claim C1. The claim says that \<open>customers_dim\<close> succeeds on a dictionary with the
  customer table and without the employee table. The code lists \<open>employee\<close> among the
  required tables, so on every dictionary without it the call raises the missing-table
  error, before the guarded merge is reached.
\<close>

theorem customers_dim_requires_employee:
  "tbls ''employee'' = None \<Longrightarrow>
   customers_dim tbls =
     Inl (KeyError (''Missing required tables: '' @
            (if tbls ''customer'' = None then ''customer, employee'' else ''employee'')))"
  by (simp add: customers_dim_def check_required_tables_def bind_def)

subsection \<open>The theorems at concrete inputs\<close>

text \<open>Claim C2 on the example store: two invoice lines, two rows.\<close>

theorem sales_line_items_row_count_witness:
  "\<exists>result. sales_line_items example_pandas example_tables = Inr result \<and>
     example_tables ''invoiceline'' = Some example_invoiceline \<and>
     joined_keys_unique example_tables \<and>
     length (rows result) = 2"
proof -
  have "case sales_line_items example_pandas example_tables of Inl e \<Rightarrow> False | Inr t \<Rightarrow> True"
    by code_simp
  then obtain result where r: "sales_line_items example_pandas example_tables = Inr result"
    by (auto split: sum.splits)
  have il: "example_tables ''invoiceline'' = Some example_invoiceline"
    by (simp add: example_tables_def)
  have u: "joined_keys_unique example_tables"
    by code_simp
  have "length (rows example_invoiceline) = 2"
    by (simp add: example_invoiceline_def frame_def)
  with sales_line_items_row_count [OF r il u] r il u show ?thesis by simp
qed


text \<open>Claim C7 on the example store, without album and genre, and complete.\<close>

theorem sales_line_items_missing_tables_witness:
  "sales_line_items example_pandas (example_tables(''genre'' := None, ''album'' := None)) =
     Inl (KeyError ''Missing required tables: album, genre'') \<and>
   sublist ''genre'' ''album, genre'' \<and>
   list_all (\<lambda>t. example_tables t \<noteq> None) sales_required \<and>
   (\<exists>result. sales_line_items example_pandas example_tables = Inr result)"
proof -
  have a: "sales_line_items example_pandas (example_tables(''genre'' := None, ''album'' := None)) =
     Inl (KeyError ''Missing required tables: album, genre'')"
    using sales_line_items_missing_tables
      [of "example_tables(''genre'' := None, ''album'' := None)" example_pandas]
    by (simp add: sales_required_def example_tables_def)
  have b: "sublist ''genre'' ''album, genre''"
    using sales_line_items_missing_tables
      [of "example_tables(''genre'' := None, ''album'' := None)" example_pandas]
    by (simp add: sales_required_def example_tables_def)
  have c: "list_all (\<lambda>t. example_tables t \<noteq> None) sales_required"
    by (simp add: sales_required_def example_tables_def)
  have "case sales_line_items example_pandas example_tables of Inl e \<Rightarrow> False | Inr t \<Rightarrow> True"
    by code_simp
  then have d: "\<exists>result. sales_line_items example_pandas example_tables = Inr result"
    by (auto split: sum.splits)
  from a b c d show ?thesis by blast
qed

text \<open>Claim C1 on a store that holds the customer table only.\<close>

theorem customers_dim_requires_employee_witness:
  "customers_dim [''customer'' \<mapsto> frame [''CustomerId'', ''SupportRepId''] [[Num 5, Num 3]]] =
     Inl (KeyError ''Missing required tables: employee'')"
  using customers_dim_requires_employee
    [of "[''customer'' \<mapsto> frame [''CustomerId'', ''SupportRepId''] [[Num 5, Num 3]]]"]
  by simp

section \<open>Properties of the Analyzer: monthly revenue\<close>

lemma set_group_keys: "set (group_keys ks) = {k \<in> set ks. Null \<notin> set k}"
  by (auto simp: group_keys_def)


lemma group_keys_filter: "group_keys (filter (\<lambda>k. Null \<notin> set k) ks) = group_keys ks"
  by (simp add: group_keys_def)

text \<open>Rows without a group do not matter to the grouped sums.\<close>

lemma group_sums_filter:
  "group_sums keys col (filter (\<lambda>kv. Null \<notin> set (fst kv)) kvs) = group_sums keys col kvs"
proof -
  have k: "group_keys (map fst (filter (\<lambda>kv. Null \<notin> set (fst kv)) kvs)) = group_keys (map fst kvs)"
    using group_keys_filter [of "map fst kvs"] by (simp add: filter_map comp_def)
  have "filter (\<lambda>kv. fst kv = k) (filter (\<lambda>kv. Null \<notin> set (fst kv)) kvs) =
        filter (\<lambda>kv. fst kv = k) kvs" if "k \<in> set (group_keys (map fst kvs))" for k
    using that by (auto simp: set_group_keys intro: filter_cong)
  then show ?thesis
    unfolding group_sums_def k by (intro map_cong) simp_all
qed

lemma coerce_datetime_id: "is_datetime_cell v \<Longrightarrow> coerce_datetime pd v = v"
  by (cases v) simp_all

lemma coerce_invoice_date_cells:
  "map (\<lambda>r. (cell r ''InvoiceDate'', cell r ''LineTotal'')) (rows (coerce_invoice_date pd df)) =
   map (\<lambda>r. (coerce_datetime pd (cell r ''InvoiceDate''), cell r ''LineTotal'')) (rows df)"
proof (cases "is_datetime64_any_dtype (map (\<lambda>r. cell r ''InvoiceDate'') (rows df))")
  case True
  then have "\<forall>r \<in> set (rows df). coerce_datetime pd (cell r ''InvoiceDate'') = cell r ''InvoiceDate''"
    by (auto simp: is_datetime64_any_dtype_def list_all_iff coerce_datetime_id)
  with True show ?thesis by (simp add: coerce_invoice_date_def)
next
  case False
  have "rows (coerce_invoice_date pd df) =
        map (\<lambda>r. set_cell ''InvoiceDate'' (coerce_datetime pd (cell r ''InvoiceDate'')) r) (rows df)"
    using False rows_setitem_map [of df "''InvoiceDate''" "\<lambda>r. coerce_datetime pd (cell r ''InvoiceDate'')"]
    by (simp add: coerce_invoice_date_def comp_def)
  then show ?thesis by (simp add: cell_set_cell comp_def)
qed

lemma coerce_invoice_date_columns:
  "set (columns df) \<subseteq> set (columns (coerce_invoice_date pd df))"
  by (auto simp: coerce_invoice_date_def Let_def columns_setitem)

lemma ChinookAnalyzer_Inr:
  "ChinookAnalyzer pd sales cat = Inr self \<longleftrightarrow>
     ''InvoiceDate'' \<in> set (columns sales) \<and> ''LineTotal'' \<in> set (columns sales) \<and>
     self = \<lparr>sales_df = coerce_invoice_date pd sales, catalog_df = cat\<rparr>"
  by (auto simp: ChinookAnalyzer_def Let_def)

lemma month_pairs:
  assumes "ChinookAnalyzer pd sales cat = Inr self"
  shows "map (\<lambda>r. ([dt_time (month_start pd) (cell r ''InvoiceDate'')], cell r ''LineTotal''))
           (rows (sales_df self)) = map (month_key pd) (rows sales)"
proof -
  have "map (\<lambda>r. ([dt_time (month_start pd) (cell r ''InvoiceDate'')], cell r ''LineTotal''))
           (rows (sales_df self)) =
        map (\<lambda>(d, v). ([dt_time (month_start pd) d], v))
          (map (\<lambda>r. (cell r ''InvoiceDate'', cell r ''LineTotal'')) (rows (sales_df self)))"
    by (simp add: comp_def)
  also have "\<dots> = map (\<lambda>(d, v). ([dt_time (month_start pd) d], v))
          (map (\<lambda>r. (coerce_datetime pd (cell r ''InvoiceDate''), cell r ''LineTotal'')) (rows sales))"
    using assms by (simp only: ChinookAnalyzer_Inr coerce_invoice_date_cells flip: table.simps)
       (simp add: coerce_invoice_date_cells)
  finally show ?thesis by (simp add: comp_def month_key_def)
qed

lemma line_totals:
  assumes "ChinookAnalyzer pd sales cat = Inr self"
  shows "map (\<lambda>r. cell r ''LineTotal'') (rows (sales_df self)) =
         map (\<lambda>r. cell r ''LineTotal'') (rows sales)"
proof -
  have "map snd (map (\<lambda>r. (cell r ''InvoiceDate'', cell r ''LineTotal'')) (rows (sales_df self))) =
        map snd (map (\<lambda>r. (coerce_datetime pd (cell r ''InvoiceDate''), cell r ''LineTotal'')) (rows sales))"
    using assms by (simp add: ChinookAnalyzer_Inr coerce_invoice_date_cells del: map_map)
  then show ?thesis by (simp add: comp_def)
qed

lemma check_numeric_Inr: "check_numeric vs = Inr u \<longleftrightarrow> (\<forall>v \<in> set vs. check_number v = Inr ())"
proof -
  have "(\<exists>ys. map_err check_number vs = Inr ys) \<longleftrightarrow> (\<forall>v \<in> set vs. check_number v = Inr ())"
    by (induction vs) (auto split: sum.splits)
  then show ?thesis by (auto simp: check_numeric_def bind_Inr)
qed

text \<open>\<open>revenue_by_month\<close> in terms of the table given to the constructor.\<close>

lemma revenue_by_month_Inr:
  assumes "ChinookAnalyzer pd sales cat = Inr self"
  shows "revenue_by_month pd self = Inr result \<longleftrightarrow>
           check_numeric (map (\<lambda>r. cell r ''LineTotal'') (rows sales)) = Inr () \<and>
           result = revenue_table pd (rows sales)"
proof -
  let ?df = "sales_df self"
  let ?df1 = "setitem ?df ''Month''
                (map (\<lambda>r. dt_time (month_start pd) (cell r ''InvoiceDate'')) (rows ?df))"
  have lt: "''LineTotal'' \<in> set (columns ?df1)"
    using assms coerce_invoice_date_columns [of sales pd]
    by (auto simp: ChinookAnalyzer_Inr columns_setitem)
  have mo: "''Month'' \<in> set (columns ?df1)" by (simp add: columns_setitem)
  have rows1: "rows ?df1 =
      map (\<lambda>r. set_cell ''Month'' (dt_time (month_start pd) (cell r ''InvoiceDate'')) r) (rows ?df)"
    by (rule rows_setitem_map)
  have vals: "map (\<lambda>r. cell r ''LineTotal'') (rows ?df1) = map (\<lambda>r. cell r ''LineTotal'') (rows sales)"
    using line_totals [OF assms] by (simp add: rows1 cell_set_cell comp_def)
  have kvs: "zip (map (row_key [''Month'']) (rows ?df1)) (map (\<lambda>r. cell r ''LineTotal'') (rows ?df1)) =
             map (month_key pd) (rows sales)"
    using month_pairs [OF assms]
    by (simp add: rows1 zip_map_map zip_same_conv_map row_key_def cell_set_cell comp_def)
  have kvs': "zip (map (row_key [''Month'']) (rows ?df1)) (map (\<lambda>r. cell r ''LineTotal'') (rows sales)) =
             map (month_key pd) (rows sales)"
    using kvs by (simp only: vals)
  have "groupby_sum ?df1 [''Month''] ''LineTotal'' = Inr t \<longleftrightarrow>
          check_numeric (map (\<lambda>r. cell r ''LineTotal'') (rows sales)) = Inr () \<and>
          t = \<lparr>columns = [''Month'', ''LineTotal''],
               rows = group_sums [''Month''] ''LineTotal'' (map (month_key pd) (rows sales))\<rparr>" for t
    using lt mo by (auto simp: groupby_sum_def bind_Inr getitem_def kvs' vals)
  then show ?thesis
    by (auto simp: revenue_by_month_def Let_def bind_Inr revenue_table_def)
qed

lemma dt_time_Null: "dt_time f v = Null \<longleftrightarrow> (\<forall>t. v \<noteq> Time t)"
  by (cases v) simp_all

lemma coerce_datetime_cases: "coerce_datetime pd v = Null \<or> (\<exists>t. coerce_datetime pd v = Time t)"
  by (cases v) (simp_all split: option.splits)

lemma month_key_dated: "Null \<notin> set (fst (month_key pd r)) \<longleftrightarrow> has_invoice_date pd r"
  using coerce_datetime_cases [of pd "cell r ''InvoiceDate''"]
  by (auto simp: month_key_def has_invoice_date_def dt_time_Null)






lemma set_sort_rows: "set (sort_rows k asc rs) = set rs"
  by (auto simp: sort_rows_def Let_def)









lemma revenue_table_dated:
  "revenue_table pd (filter (has_invoice_date pd) rs) = revenue_table pd rs"
proof -
  have "map (month_key pd) (filter (has_invoice_date pd) rs) =
        filter (\<lambda>kv. Null \<notin> set (fst kv)) (map (month_key pd) rs)"
    by (simp add: filter_map comp_def month_key_dated)
  then show ?thesis by (simp add: revenue_table_def group_sums_filter)
qed

text \<open>
  Claim C9. Rows of the sales table whose invoice date is null, or becomes null when
  the constructor coerces it, are in no group of \<open>revenue_by_month\<close>: the result is the
  one computed from the table without these rows.
\<close>

theorem revenue_by_month_ignores_undated:
  assumes "ChinookAnalyzer pd sales cat = Inr self"
    and "revenue_by_month pd self = Inr result"
  shows "\<exists>self'. ChinookAnalyzer pd (dated_rows pd sales) cat = Inr self' \<and>
                 revenue_by_month pd self' = Inr result"
proof -
  from assms(1) have "ChinookAnalyzer pd (dated_rows pd sales) cat =
      Inr \<lparr>sales_df = coerce_invoice_date pd (dated_rows pd sales), catalog_df = cat\<rparr>"
    by (simp add: ChinookAnalyzer_Inr dated_rows_def)
  moreover from assms(2) have num: "check_numeric (map (\<lambda>r. cell r ''LineTotal'') (rows sales)) = Inr ()"
    and res: "result = revenue_table pd (rows sales)"
    unfolding revenue_by_month_Inr [OF assms(1)] by simp_all
  from num have "check_numeric (map (\<lambda>r. cell r ''LineTotal'') (rows (dated_rows pd sales))) = Inr ()"
    by (auto simp: check_numeric_Inr dated_rows_def)
  moreover have "result = revenue_table pd (rows (dated_rows pd sales))"
    by (simp add: res dated_rows_def revenue_table_dated)
  ultimately show ?thesis
    using revenue_by_month_Inr [of pd "dated_rows pd sales" cat] by blast
qed


text \<open>Claim C9 on the same table.\<close>

theorem revenue_by_month_ignores_undated_witness:
  "\<exists>self self'. ChinookAnalyzer example_pandas undated_sales None = Inr self \<and>
     revenue_by_month example_pandas self = Inr undated_revenue \<and>
     rows (dated_rows example_pandas undated_sales) = [[(''InvoiceDate'', Time 0), (''LineTotal'', Num 2)]] \<and>
     ChinookAnalyzer example_pandas (dated_rows example_pandas undated_sales) None = Inr self' \<and>
     revenue_by_month example_pandas self' = Inr undated_revenue"
proof -
  have "bind (ChinookAnalyzer example_pandas undated_sales None) (revenue_by_month example_pandas) =
     Inr undated_revenue"
    by code_simp
  then obtain self where a: "ChinookAnalyzer example_pandas undated_sales None = Inr self"
    and r: "revenue_by_month example_pandas self = Inr undated_revenue"
    by (auto simp: bind_Inr)
  have d: "rows (dated_rows example_pandas undated_sales) = [[(''InvoiceDate'', Time 0), (''LineTotal'', Num 2)]]"
    by code_simp
  from revenue_by_month_ignores_undated [OF a r] a r d show ?thesis by blast
qed


section \<open>Properties of the Analyzer: words of track titles\<close>

lemma column_drop_null_titles:
  "filter (\<lambda>v. v \<noteq> Null) (column (drop_null_titles df) ''Name'') =
   filter (\<lambda>v. v \<noteq> Null) (column df ''Name'')"
  by (simp add: column_def drop_null_titles_def filter_map comp_def)

text \<open>
  Claim C10. \<open>top_words_in_track_titles\<close> ignores the rows of the catalog whose title is
  null: the null titles are dropped before any text processing, so the result is the one
  computed from the catalog without these rows.
\<close>

theorem top_words_ignore_null_titles:
  "top_words_in_track_titles pd
     (self\<lparr>catalog_df := map_option drop_null_titles (catalog_df self)\<rparr>) n stopwords =
   top_words_in_track_titles pd self n stopwords"
proof (cases "catalog_df self")
  case None
  then show ?thesis by (simp add: top_words_in_track_titles_def)
next
  case (Some cat)
  have "check_column (drop_null_titles cat) ''Name'' = check_column cat ''Name''"
    by (simp add: check_column_def drop_null_titles_def)
  with Some show ?thesis
    by (simp add: top_words_in_track_titles_def column_drop_null_titles)
qed

text \<open>
  Claim C10 on a catalog with the titles "The Sun Rises", null and "Sun and Moon": with
  or without the null row, "sun" comes first with frequency 2.
\<close>

theorem top_words_ignore_null_titles_witness:
  "top_words_in_track_titles example_pandas
     (example_analyzer\<lparr>catalog_df := map_option drop_null_titles (catalog_df example_analyzer)\<rparr>)
     2 None =
     Inr (frame [''Word'', ''Frequency''] [[Str ''sun'', Num 2], [Str ''rises'', Num 1]])"
proof -
  have "top_words_in_track_titles example_pandas example_analyzer 2 None =
     Inr (frame [''Word'', ''Frequency''] [[Str ''sun'', Num 2], [Str ''rises'', Num 1]])"
    by code_simp
  then show ?thesis
    using top_words_ignore_null_titles [of example_pandas example_analyzer 2 None] by simp
qed

section \<open>Properties of the Analyzer: RFM scores\<close>

lemma length_drop_duplicates: "length (drop_duplicates bins) \<le> length bins"
  by (simp add: drop_duplicates_def unique_def)

lemma length_quantile_edges: "length (quantile_edges xs q) = q + 1"
  by (simp add: quantile_edges_def)

lemma bins_to_cuts_range:
  assumes "bins_to_cuts bins x = Some l" and "bins \<noteq> []"
  shows "0 \<le> l \<and> l + 1 < int (length bins)"
proof -
  from assms(1) obtain v i where x: "x = Some v"
    and i: "i = (if v = hd bins then 1 else searchsorted_left bins v)"
    and r: "i \<noteq> length bins" "i \<noteq> 0" "l = int i - 1"
    by (auto simp: bins_to_cuts_def Let_def split: option.splits if_splits)
  have "i \<le> length bins"
    using assms(2) by (cases bins) (auto simp: i searchsorted_left_def intro: le_SucI)
  with r show ?thesis by simp
qed

lemma drop_duplicates_nonempty: "bins \<noteq> [] \<Longrightarrow> drop_duplicates bins \<noteq> []"
  by (auto simp: drop_duplicates_def unique_def)

text \<open>The labels of \<open>qcut\<close>: a function of the value, with results from 0 to \<open>q - 1\<close>.\<close>

lemma qcut_labels:
  assumes "qcut xs q = Inr ls"
  obtains h where "ls = map h xs" and "\<And>x l. h x = Some l \<Longrightarrow> 0 \<le> l \<and> l < int q"
    and "h None = None"
proof (cases "present xs = []")
  case True
  with assms have "ls = map (\<lambda>_. None) xs" by (simp add: qcut_def)
  then show ?thesis by (rule that) simp_all
next
  case False
  let ?bins = "drop_duplicates (quantile_edges (present xs) q)"
  from False assms have "ls = map (bins_to_cuts ?bins) xs" by (simp add: qcut_def)
  moreover have "0 \<le> l \<and> l < int q" if "bins_to_cuts ?bins x = Some l" for x l
  proof -
    have "quantile_edges (present xs) q \<noteq> []"
      using length_quantile_edges [of "present xs" q] by (cases "quantile_edges (present xs) q") simp_all
    from bins_to_cuts_range [OF that drop_duplicates_nonempty [OF this]]
      length_drop_duplicates [of "quantile_edges (present xs) q"]
    show ?thesis by (simp add: length_quantile_edges)
  qed
  moreover have "bins_to_cuts ?bins None = None" by (simp add: bins_to_cuts_def)
  ultimately show ?thesis by (rule that)
qed

lemma qcut_no_error: "qcut xs q \<noteq> Inl e"
  by (simp add: qcut_def)

lemma astype_int_Inr:
  "astype_int bs = Inr vs \<longleftrightarrow> None \<notin> set bs \<and> vs = map (\<lambda>b. case b of None \<Rightarrow> Null | Some i \<Rightarrow> Num (of_int i)) bs"
  by (auto simp: astype_int_def)

lemma nanmax_Some:
  assumes "None \<notin> set bs" and "bs \<noteq> []"
  obtains m where "nanmax bs = Some m" and "Some m \<in> set bs" and "\<And>b. Some b \<in> set bs \<Longrightarrow> b \<le> m"
proof -
  have s: "set (present bs) = {b. Some b \<in> set bs}"
    by (auto simp: present_def)
  from assms obtain b where "Some b \<in> set bs" by (cases bs) (auto, metis option.exhaust)
  with s have ne: "present bs \<noteq> []" by auto
  then have "nanmax bs = Some (Max (set (present bs)))"
    by (cases "present bs") (simp_all add: nanmax_def)
  moreover have "Max (set (present bs)) \<in> set (present bs)"
    using ne by (intro Max_in) simp_all
  moreover have "b \<le> Max (set (present bs))" if "Some b \<in> set bs" for b
  proof -
    from that have "b \<in> set (present bs)" by (simp add: s)
    then show ?thesis by (intro Max_ge) simp_all
  qed
  ultimately show ?thesis using s that by auto
qed

text \<open>
  The scores of \<open>safe_qcut\<close>: each is a function of the value it is computed from, and
  an integer from 1 to \<open>q\<close>.
\<close>

lemma safe_qcut_scores:
  assumes "safe_qcut series q reverse = Inr scores"
  obtains g where "scores = map g series"
    and "\<And>v. v \<in> set series \<Longrightarrow> \<exists>s. g v = Num (of_int s) \<and> 1 \<le> s \<and> s \<le> int q"
    and "\<And>v. v \<in> set series \<Longrightarrow> v \<noteq> Null"
proof -
  obtain bins where q: "qcut (map num_of series) q = Inr bins"
    using qcut_no_error [of "map num_of series" q] by (cases "qcut (map num_of series) q") auto
  obtain h where bins: "bins = map h (map num_of series)"
    and h: "\<And>x l. h x = Some l \<Longrightarrow> 0 \<le> l \<and> l < int q" and hN: "h None = None"
    using qcut_labels [OF q] by blast
  define h1 where "h1 = (\<lambda>v. map_option (\<lambda>b. b + 1) (h (num_of v)))"
  define bins1 where "bins1 = map h1 series"
  define f where "f = (if reverse then sub_opt (map_option (\<lambda>m. m + 1) (nanmax bins1)) else id)"
  define g where "g = (\<lambda>v. case f (h1 v) of None \<Rightarrow> Null | Some i \<Rightarrow> Num (of_int i))"
  have b1: "map (map_option (\<lambda>b. b + 1)) bins = bins1"
    by (simp add: bins bins1_def h1_def)
  from assms have a: "astype_int (map f bins1) = Inr scores"
    by (cases reverse) (simp_all add: safe_qcut_def q bind_def b1 f_def Let_def del: map_map)
  then have none: "None \<notin> set (map f bins1)" and sc: "scores = map g series"
    by (simp_all add: astype_int_Inr bins1_def g_def comp_def)
  have fN: "f None = None" by (cases reverse) (simp_all add: f_def)
  have h1S: "\<exists>b. h1 v = Some b \<and> 1 \<le> b \<and> b \<le> int q" if "v \<in> set series" for v
  proof -
    from that have "f (h1 v) \<in> set (map f bins1)" by (simp add: bins1_def)
    with none have "f (h1 v) \<noteq> None" by metis
    with fN obtain b where b: "h1 v = Some b" by (cases "h1 v") auto
    then obtain l where "h (num_of v) = Some l" and "b = l + 1" by (auto simp: h1_def)
    with h [of "num_of v" l] b show ?thesis by auto
  qed
  have nn: "v \<noteq> Null" if "v \<in> set series" for v
    using h1S [OF that] hN by (auto simp: h1_def)
  have "\<exists>s. g v = Num (of_int s) \<and> 1 \<le> s \<and> s \<le> int q" if v: "v \<in> set series" for v
  proof -
    from h1S [OF v] obtain b where b: "h1 v = Some b" "1 \<le> b" "b \<le> int q" by blast
    show ?thesis
    proof (cases reverse)
      case False
      with b show ?thesis by (simp add: g_def f_def)
    next
      case True
      have n1: "None \<notin> set bins1" using h1S by (auto simp: bins1_def image_iff) (metis option.distinct(1))
      from v have ne: "bins1 \<noteq> []" by (auto simp: bins1_def)
      from nanmax_Some [OF n1 ne] obtain m where m: "nanmax bins1 = Some m" "Some m \<in> set bins1"
        and mx: "\<And>b. Some b \<in> set bins1 \<Longrightarrow> b \<le> m" by blast
      from m(2) obtain w where "w \<in> set series" "h1 w = Some m" by (auto simp: bins1_def)
      with h1S [of w] have "m \<le> int q" by auto
      moreover from v b have "b \<le> m" by (intro mx) (auto simp: bins1_def image_iff intro: bexI [of _ v])
      ultimately have "g v = Num (of_int (m + 1 - b)) \<and> 1 \<le> m + 1 - b \<and> m + 1 - b \<le> int q"
        using True b m by (simp add: g_def f_def)
      then show ?thesis by blast
    qed
  qed
  with sc nn show ?thesis by (intro that [of g]) auto
qed

lemma val_key_Num_le: "val_key (Num y) \<le> val_key (Num x) \<longleftrightarrow> y \<le> x"
  by (auto simp: less_eq_prod_def)

lemma sort_rows_descending:
  assumes "\<And>r. r \<in> set rs \<Longrightarrow> \<exists>x. k r = Num x"
  shows "sorted_wrt (\<lambda>a b. num_or_zero (k b) \<le> num_or_zero (k a)) (sort_rows k False rs)"
proof -
  let ?K = "\<lambda>r. val_key (k r)"
  from assms have "\<forall>r \<in> set rs. k r \<noteq> Null" by fastforce
  then have p: "filter (\<lambda>r. k r \<noteq> Null) rs = rs" and n: "filter (\<lambda>r. k r = Null) rs = []"
    by (simp_all add: filter_id_conv filter_empty_conv)
  have "sorted (map ?K (sort_key ?K (rev rs)))" by (rule sorted_sort_key)
  then have "sorted_wrt (\<lambda>a b. ?K a \<le> ?K b) (sort_key ?K (rev rs))"
    by (simp add: sorted_wrt_map)
  then have "sorted_wrt (\<lambda>a b. ?K b \<le> ?K a) (rev (sort_key ?K (rev rs)))"
    by (simp add: sorted_wrt_rev)
  then have "sorted_wrt (\<lambda>a b. num_or_zero (k b) \<le> num_or_zero (k a)) (rev (sort_key ?K (rev rs)))"
  proof (rule sorted_wrt_mono_rel [rotated])
    fix a b
    assume "a \<in> set (rev (sort_key ?K (rev rs)))" "b \<in> set (rev (sort_key ?K (rev rs)))"
      and le: "?K b \<le> ?K a"
    then obtain x y where "k a = Num x" "k b = Num y" using assms by fastforce
    with le show "num_or_zero (k b) \<le> num_or_zero (k a)" by (auto simp: less_eq_prod_def)
  qed
  then show ?thesis by (simp add: sort_rows_def Let_def p n)
qed

text \<open>
  The result of \<open>rfm_analysis\<close>: the rows of the aggregated table, each with its four
  score cells set, sorted. The three scores are functions of the recency, the frequency
  and the monetary value of the row.
\<close>

lemma rfm_analysis_rows:
  assumes "rfm_analysis self = Inr result"
  obtains rfm H gR gF gM where
    "rfm_aggregate (sales_df self) = Inr rfm"
    "rows result = sort_rows (\<lambda>r. cell r ''RFM_Score'') False (map H (rows rfm))"
    "\<And>r. r \<in> set (rows rfm) \<Longrightarrow>
       cell r ''Recency'' \<noteq> Null \<and>
       cell (H r) ''R_Score'' = gR (cell r ''Recency'') \<and>
       cell (H r) ''F_Score'' = gF (cell r ''Frequency'') \<and>
       cell (H r) ''M_Score'' = gM (cell r ''Monetary'') \<and>
       cell (H r) ''RFM_Score'' =
         add_val (add_val (gR (cell r ''Recency'')) (gF (cell r ''Frequency''))) (gM (cell r ''Monetary'')) \<and>
       (\<exists>s. gR (cell r ''Recency'') = Num (of_int s) \<and> 1 \<le> s \<and> s \<le> 5) \<and>
       (\<exists>s. gF (cell r ''Frequency'') = Num (of_int s) \<and> 1 \<le> s \<and> s \<le> 5) \<and>
       (\<exists>s. gM (cell r ''Monetary'') = Num (of_int s) \<and> 1 \<le> s \<and> s \<le> 5)"
    "\<And>r c. c \<notin> {''R_Score'', ''F_Score'', ''M_Score'', ''RFM_Score''} \<Longrightarrow> cell (H r) c = cell r c"
proof -
  from assms obtain rfm r_score f_score m_score where
    agg: "rfm_aggregate (sales_df self) = Inr rfm" and
    r: "safe_qcut (column rfm ''Recency'') 5 True = Inr r_score" and
    f: "safe_qcut (column (setitem rfm ''R_Score'' r_score) ''Frequency'') 5 False = Inr f_score" and
    m: "safe_qcut (column (setitem (setitem rfm ''R_Score'' r_score) ''F_Score'' f_score) ''Monetary'')
          5 False = Inr m_score" and
    res: "result = sort_values
            (setitem (setitem (setitem (setitem rfm ''R_Score'' r_score) ''F_Score'' f_score)
                        ''M_Score'' m_score) ''RFM_Score''
               (map (\<lambda>r. add_val (add_val (cell r ''R_Score'') (cell r ''F_Score'')) (cell r ''M_Score''))
                  (rows (setitem (setitem (setitem rfm ''R_Score'' r_score) ''F_Score'' f_score)
                        ''M_Score'' m_score))))
            ''RFM_Score'' False"
    by (auto simp: rfm_analysis_def bind_Inr Let_def)
  obtain gR where gR: "r_score = map gR (column rfm ''Recency'')"
    and gR_range: "\<And>v. v \<in> set (column rfm ''Recency'') \<Longrightarrow> \<exists>s. gR v = Num (of_int s) \<and> 1 \<le> s \<and> s \<le> int 5"
    and gR_nn: "\<And>v. v \<in> set (column rfm ''Recency'') \<Longrightarrow> v \<noteq> Null"
    using safe_qcut_scores [OF r] by blast
  define h1 where "h1 = (\<lambda>r. set_cell ''R_Score'' (gR (cell r ''Recency'')) r)"
  let ?rfm1 = "setitem rfm ''R_Score'' r_score"
  have rows1: "rows ?rfm1 = map h1 (rows rfm)"
    using rows_setitem_map [of rfm "''R_Score''" "\<lambda>r. gR (cell r ''Recency'')"]
    by (simp add: gR column_def h1_def comp_def)
  have colF: "column ?rfm1 ''Frequency'' = column rfm ''Frequency''"
    by (simp add: column_def rows1 h1_def cell_set_cell comp_def)
  obtain gF where gF: "f_score = map gF (column rfm ''Frequency'')"
    and gF_range: "\<And>v. v \<in> set (column rfm ''Frequency'') \<Longrightarrow> \<exists>s. gF v = Num (of_int s) \<and> 1 \<le> s \<and> s \<le> int 5"
    using safe_qcut_scores [OF f] unfolding colF by blast
  define h2 where "h2 = (\<lambda>r. set_cell ''F_Score'' (gF (cell r ''Frequency'')) (h1 r))"
  let ?rfm2 = "setitem ?rfm1 ''F_Score'' f_score"
  have "f_score = map (\<lambda>r. gF (cell r ''Frequency'')) (rows ?rfm1)"
    using arg_cong [OF colF, of "map gF"] by (simp add: gF column_def comp_def)
  then have rows2: "rows ?rfm2 = map h2 (rows rfm)"
    using rows_setitem_map [of ?rfm1 "''F_Score''" "\<lambda>r. gF (cell r ''Frequency'')"]
    by (simp add: rows1 h2_def h1_def cell_set_cell comp_def)
  have colM: "column ?rfm2 ''Monetary'' = column rfm ''Monetary''"
    by (simp add: column_def rows2 h2_def h1_def cell_set_cell comp_def)
  obtain gM where gM: "m_score = map gM (column rfm ''Monetary'')"
    and gM_range: "\<And>v. v \<in> set (column rfm ''Monetary'') \<Longrightarrow> \<exists>s. gM v = Num (of_int s) \<and> 1 \<le> s \<and> s \<le> int 5"
    using safe_qcut_scores [OF m] unfolding colM by blast
  define h3 where "h3 = (\<lambda>r. set_cell ''M_Score'' (gM (cell r ''Monetary'')) (h2 r))"
  let ?rfm3 = "setitem ?rfm2 ''M_Score'' m_score"
  have "m_score = map (\<lambda>r. gM (cell r ''Monetary'')) (rows ?rfm2)"
    using arg_cong [OF colM, of "map gM"] by (simp add: gM column_def comp_def)
  then have rows3: "rows ?rfm3 = map h3 (rows rfm)"
    using rows_setitem_map [of ?rfm2 "''M_Score''" "\<lambda>r. gM (cell r ''Monetary'')"]
    by (simp add: rows2 h3_def h2_def h1_def cell_set_cell comp_def)
  define H where "H = (\<lambda>r. set_cell ''RFM_Score''
      (add_val (add_val (cell (h3 r) ''R_Score'') (cell (h3 r) ''F_Score'')) (cell (h3 r) ''M_Score'')) (h3 r))"
  have rows4: "rows (setitem ?rfm3 ''RFM_Score''
      (map (\<lambda>r. add_val (add_val (cell r ''R_Score'') (cell r ''F_Score'')) (cell r ''M_Score''))
         (rows ?rfm3))) = map H (rows rfm)"
    using rows_setitem_map [of ?rfm3 "''RFM_Score''"
        "\<lambda>r. add_val (add_val (cell r ''R_Score'') (cell r ''F_Score'')) (cell r ''M_Score'')"]
    by (simp add: rows3 H_def comp_def)
  have res_rows: "rows result = sort_rows (\<lambda>r. cell r ''RFM_Score'') False (map H (rows rfm))"
    unfolding res sort_values_def by (simp only: table.simps rows4)
  show ?thesis
  proof (rule that [OF agg res_rows, of gR gF gM])
    fix r assume "r \<in> set (rows rfm)"
    then have "cell r ''Recency'' \<in> set (column rfm ''Recency'')"
      "cell r ''Frequency'' \<in> set (column rfm ''Frequency'')"
      "cell r ''Monetary'' \<in> set (column rfm ''Monetary'')"
      by (simp_all add: column_def)
    with gR_range gR_nn gF_range gM_range
    show "cell r ''Recency'' \<noteq> Null \<and>
       cell (H r) ''R_Score'' = gR (cell r ''Recency'') \<and>
       cell (H r) ''F_Score'' = gF (cell r ''Frequency'') \<and>
       cell (H r) ''M_Score'' = gM (cell r ''Monetary'') \<and>
       cell (H r) ''RFM_Score'' =
         add_val (add_val (gR (cell r ''Recency'')) (gF (cell r ''Frequency''))) (gM (cell r ''Monetary'')) \<and>
       (\<exists>s. gR (cell r ''Recency'') = Num (of_int s) \<and> 1 \<le> s \<and> s \<le> 5) \<and>
       (\<exists>s. gF (cell r ''Frequency'') = Num (of_int s) \<and> 1 \<le> s \<and> s \<le> 5) \<and>
       (\<exists>s. gM (cell r ''Monetary'') = Num (of_int s) \<and> 1 \<le> s \<and> s \<le> 5)"
      by (simp add: H_def h3_def h2_def h1_def cell_set_cell)
  next
    fix r :: row and c
    assume "c \<notin> {''R_Score'', ''F_Score'', ''M_Score'', ''RFM_Score''}"
    then show "cell (H r) c = cell r c"
      by (simp add: H_def h3_def h2_def h1_def cell_set_cell)
  qed
qed

lemma score_in_int: "score_in r c lo hi \<longleftrightarrow> (\<exists>s. cell r c = Num (of_int s) \<and> lo \<le> s \<and> s \<le> hi)"
proof
  assume "score_in r c lo hi"
  then obtain x where x: "cell r c = Num x" "of_int \<lfloor>x\<rfloor> = x" "of_int lo \<le> x" "x \<le> of_int hi"
    by (auto simp: score_in_def split: val.splits)
  then have "lo \<le> \<lfloor>x\<rfloor> \<and> \<lfloor>x\<rfloor> \<le> hi" by (metis of_int_le_iff)
  with x show "\<exists>s. cell r c = Num (of_int s) \<and> lo \<le> s \<and> s \<le> hi" by metis
next
  assume "\<exists>s. cell r c = Num (of_int s) \<and> lo \<le> s \<and> s \<le> hi"
  then show "score_in r c lo hi" by (auto simp: score_in_def)
qed

text \<open>
  Claim C3. When \<open>rfm_analysis\<close> succeeds, every row has \<open>R_Score\<close>, \<open>F_Score\<close> and
  \<open>M_Score\<close> between 1 and 5 and \<open>RFM_Score\<close> between 3 and 15; two rows with the same
  recency, frequency and monetary value have the same three scores; and the rows are in
  descending order of \<open>RFM_Score\<close>.
\<close>

theorem rfm_analysis_scores:
  assumes "rfm_analysis self = Inr result"
  shows "(\<forall>r \<in> set (rows result).
            score_in r ''R_Score'' 1 5 \<and> score_in r ''F_Score'' 1 5 \<and>
            score_in r ''M_Score'' 1 5 \<and> score_in r ''RFM_Score'' 3 15) \<and>
         (\<forall>r \<in> set (rows result). \<forall>r' \<in> set (rows result). same_rfm r r' \<longrightarrow> same_scores r r') \<and>
         sorted_wrt (\<lambda>r r'. rfm_score r' \<le> rfm_score r) (rows result)"
proof (rule rfm_analysis_rows [OF assms])
  fix rfm H gR gF gM
  assume rws: "rows result = sort_rows (\<lambda>r. cell r ''RFM_Score'') False (map H (rows rfm))"
    and sc: "\<And>r. r \<in> set (rows rfm) \<Longrightarrow>
       cell r ''Recency'' \<noteq> Null \<and>
       cell (H r) ''R_Score'' = gR (cell r ''Recency'') \<and>
       cell (H r) ''F_Score'' = gF (cell r ''Frequency'') \<and>
       cell (H r) ''M_Score'' = gM (cell r ''Monetary'') \<and>
       cell (H r) ''RFM_Score'' =
         add_val (add_val (gR (cell r ''Recency'')) (gF (cell r ''Frequency''))) (gM (cell r ''Monetary'')) \<and>
       (\<exists>s. gR (cell r ''Recency'') = Num (of_int s) \<and> 1 \<le> s \<and> s \<le> 5) \<and>
       (\<exists>s. gF (cell r ''Frequency'') = Num (of_int s) \<and> 1 \<le> s \<and> s \<le> 5) \<and>
       (\<exists>s. gM (cell r ''Monetary'') = Num (of_int s) \<and> 1 \<le> s \<and> s \<le> 5)"
    and keep: "\<And>r c. c \<notin> {''R_Score'', ''F_Score'', ''M_Score'', ''RFM_Score''} \<Longrightarrow> cell (H r) c = cell r c"
  have mem: "set (rows result) = H ` set (rows rfm)"
    by (simp add: rws set_sort_rows)
  have total: "\<exists>s. cell (H r) ''RFM_Score'' = Num (of_int s) \<and> 3 \<le> s \<and> s \<le> 15"
    if "r \<in> set (rows rfm)" for r
  proof -
    from sc [OF that] obtain a b c where
      "gR (cell r ''Recency'') = Num (of_int a)" "1 \<le> a" "a \<le> 5"
      "gF (cell r ''Frequency'') = Num (of_int b)" "1 \<le> b" "b \<le> 5"
      "gM (cell r ''Monetary'') = Num (of_int c)" "1 \<le> c" "c \<le> 5"
      and "cell (H r) ''RFM_Score'' =
         add_val (add_val (gR (cell r ''Recency'')) (gF (cell r ''Frequency''))) (gM (cell r ''Monetary''))"
      by blast
    then have "cell (H r) ''RFM_Score'' = Num (of_int (a + b + c)) \<and> 3 \<le> a + b + c \<and> a + b + c \<le> 15"
      by simp
    then show ?thesis by blast
  qed
  have 1: "\<forall>r \<in> set (rows result).
            score_in r ''R_Score'' 1 5 \<and> score_in r ''F_Score'' 1 5 \<and>
            score_in r ''M_Score'' 1 5 \<and> score_in r ''RFM_Score'' 3 15"
    unfolding mem score_in_int using sc total by simp
  have 2: "\<forall>r \<in> set (rows result). \<forall>r' \<in> set (rows result). same_rfm r r' \<longrightarrow> same_scores r r'"
    unfolding mem
  proof (intro ballI impI)
    fix r r' assume "r \<in> H ` set (rows rfm)" "r' \<in> H ` set (rows rfm)" and same: "same_rfm r r'"
    then obtain r0 r0' where r0: "r0 \<in> set (rows rfm)" "r = H r0" "r0' \<in> set (rows rfm)" "r' = H r0'"
      by blast
    from same have "cell r0 ''Recency'' = cell r0' ''Recency''"
      "cell r0 ''Frequency'' = cell r0' ''Frequency''" "cell r0 ''Monetary'' = cell r0' ''Monetary''"
      by (simp_all add: same_rfm_def r0 keep)
    with sc [OF r0(1)] sc [OF r0(3)] show "same_scores r r'"
      by (simp add: same_scores_def r0)
  qed
  have "sorted_wrt (\<lambda>a b. num_or_zero (cell b ''RFM_Score'') \<le> num_or_zero (cell a ''RFM_Score''))
          (sort_rows (\<lambda>r. cell r ''RFM_Score'') False (map H (rows rfm)))"
    by (rule sort_rows_descending) (use total in auto)
  then have 3: "sorted_wrt (\<lambda>r r'. rfm_score r' \<le> rfm_score r) (rows result)"
    by (simp add: rws rfm_score_def)
  from 1 2 3 show ?thesis by blast
qed

text \<open>
  Claim C3 on the four example customers: B comes first, the equal customers A and D
  get equal scores, C comes last.
\<close>

theorem rfm_analysis_scores_witness:
  "\<exists>result. rfm_analysis example_rfm_analyzer = Inr result \<and>
     map (\<lambda>r. (cell r ''CustomerId'', cell r ''RFM_Score'')) (rows result) =
       [(Str ''B'', Num 10), (Str ''A'', Num 6), (Str ''D'', Num 6), (Str ''C'', Num 3)] \<and>
     list_all (\<lambda>r. score_in r ''R_Score'' 1 5 \<and> score_in r ''F_Score'' 1 5 \<and>
                    score_in r ''M_Score'' 1 5 \<and> score_in r ''RFM_Score'' 3 15) (rows result) \<and>
     list_all (\<lambda>r. list_all (\<lambda>r'. same_scores r r' \<or> \<not> same_rfm r r') (rows result)) (rows result) \<and>
     sorted_wrt (\<lambda>r r'. rfm_score r' \<le> rfm_score r) (rows result)"
proof -
  have "case rfm_analysis example_rfm_analyzer of Inl e \<Rightarrow> False
        | Inr t \<Rightarrow> map (\<lambda>r. (cell r ''CustomerId'', cell r ''RFM_Score'')) (rows t) =
            [(Str ''B'', Num 10), (Str ''A'', Num 6), (Str ''D'', Num 6), (Str ''C'', Num 3)]"
    by code_simp
  then obtain result where r: "rfm_analysis example_rfm_analyzer = Inr result"
    and c: "map (\<lambda>r. (cell r ''CustomerId'', cell r ''RFM_Score'')) (rows result) =
       [(Str ''B'', Num 10), (Str ''A'', Num 6), (Str ''D'', Num 6), (Str ''C'', Num 3)]"
    by (auto split: sum.splits)
  note t = rfm_analysis_scores [OF r]
  from t have a: "list_all (\<lambda>r. score_in r ''R_Score'' 1 5 \<and> score_in r ''F_Score'' 1 5 \<and>
                    score_in r ''M_Score'' 1 5 \<and> score_in r ''RFM_Score'' 3 15) (rows result)"
    unfolding list_all_iff by (elim conjE)
  from t have "\<forall>r \<in> set (rows result). \<forall>r' \<in> set (rows result). same_rfm r r' \<longrightarrow> same_scores r r'"
    by (elim conjE)
  then have b: "list_all (\<lambda>r. list_all (\<lambda>r'. same_scores r r' \<or> \<not> same_rfm r r') (rows result)) (rows result)"
    unfolding list_all_iff by blast
  from t have s: "sorted_wrt (\<lambda>r r'. rfm_score r' \<le> rfm_score r) (rows result)"
    by (elim conjE)
  from r c a b s show ?thesis by (intro exI [of _ result] conjI)
qed

section \<open>Properties of the Analyzer: RFM records\<close>












section \<open>The operations over the store compute the frames of the definitions on values\<close>

text \<open>
  Each step of an operation, run from a store in which its references exist; then, for
  every operation, the frame it returns is the table that the definition on values gives
  for the tables behind the references.
\<close>

lemma io_bind_lift: "io_bind (io_lift m) f h = (case m of Inl e \<Rightarrow> (Inl e, h) | Inr x \<Rightarrow> f x h)"
  by (simp add: io_bind_def io_lift_def split: sum.splits)

lemma io_return_apply: "io_return x h = (Inr x, h)"
  by (simp add: io_return_def)

lemma io_lift_apply: "io_lift m h = (m, h)"
  by (simp add: io_lift_def)

lemma io_bind_return: "io_bind (io_return x) f h = f x h"
  by (simp add: io_bind_def io_return_def)

lemma io_bind_frame_of:
  "io_bind (frame_of tbls name) f h =
     (case tbls name of None \<Rightarrow> (Inl (KeyError name), h) | Some a \<Rightarrow> f a h)"
  by (simp add: frame_of_def io_bind_lift io_bind_return split: option.splits)

lemma io_bind_read: "a < length h \<Longrightarrow> io_bind (read_frame a) f h = f (h ! a) h"
  by (simp add: io_bind_def read_frame_def)

lemma io_bind_new: "io_bind (new_frame t) f h = f (length h) (h @ [t])"
  by (simp add: io_bind_def new_frame_def)

lemma io_bind_assoc: "io_bind (io_bind m g) f = io_bind m (\<lambda>x. io_bind (g x) f)"
  by (auto simp: io_bind_def fun_eq_iff split: prod.splits sum.splits)

lemma io_bind_copy: "a < length h \<Longrightarrow> io_bind (copy_frame a) f h = f (length h) (h @ [h ! a])"
  by (simp add: copy_frame_def io_bind_assoc io_bind_read io_bind_new)

lemma io_bind_merge:
  "a < length h \<Longrightarrow> b < length h \<Longrightarrow>
   io_bind (merge_frames a b lk rk sfxs) f h =
     (case merge_left (h ! a) (h ! b) lk rk sfxs of
        Inl e \<Rightarrow> (Inl e, h) | Inr t \<Rightarrow> f (length h) (h @ [t]))"
  by (simp add: merge_frames_def io_bind_assoc io_bind_read io_bind_new io_bind_lift
      split: sum.splits)

lemma io_bind_merge_of:
  "tbls name = Some b \<Longrightarrow> a < length h \<Longrightarrow> b < length h \<Longrightarrow>
   io_bind (merge_frame_of tbls name k sfxs a) f h =
     (case merge_left (h ! a) (h ! b) k k sfxs of
        Inl e \<Rightarrow> (Inl e, h) | Inr t \<Rightarrow> f (length h) (h @ [t]))"
  by (simp add: merge_frame_of_def io_bind_assoc io_bind_frame_of io_bind_merge)

lemma io_bind_write: "io_bind (write_frame a t) f h = f () (h[a := t])"
  by (simp add: io_bind_def write_frame_def)

lemma io_bind_update:
  "a < length h \<Longrightarrow>
   io_bind (update_frame a g) f h =
     (case g (h ! a) of Inl e \<Rightarrow> (Inl e, h) | Inr t \<Rightarrow> f () (h[a := t]))"
  by (simp add: update_frame_def io_bind_assoc io_bind_read io_bind_lift io_bind_write
      split: sum.splits)

lemma derive_frame_apply:
  "a < length h \<Longrightarrow>
   derive_frame a g h = (case g (h ! a) of Inl e \<Rightarrow> (Inl e, h) | Inr t \<Rightarrow> (Inr (length h), h @ [t]))"
  by (simp add: derive_frame_def io_bind_read io_bind_lift new_frame_def split: sum.splits)

lemma merge_frames_apply:
  "a < length h \<Longrightarrow> b < length h \<Longrightarrow>
   merge_frames a b lk rk sfxs h =
     (case merge_left (h ! a) (h ! b) lk rk sfxs of
        Inl e \<Rightarrow> (Inl e, h) | Inr t \<Rightarrow> (Inr (length h), h @ [t]))"
  by (simp add: merge_frames_def io_bind_read io_bind_lift new_frame_def split: sum.splits)

lemma io_bind_check_column:
  "a < length h \<Longrightarrow>
   io_bind (check_column_io a col) f h =
     (case check_column (h ! a) col of Inl e \<Rightarrow> (Inl e, h) | Inr u \<Rightarrow> f u h)"
  by (simp add: check_column_io_def io_bind_assoc io_bind_read io_bind_lift)

lemma io_bind_copy_optional:
  "io_bind (copy_optional None) f h = f None h"
  "c < length h \<Longrightarrow> io_bind (copy_optional (Some c)) f h = f (Some (length h)) (h @ [h ! c])"
  by (simp_all add: copy_optional_def io_bind_assoc io_bind_return io_bind_copy)

lemma io_bind_derive:
  "a < length h \<Longrightarrow>
   io_bind (derive_frame a g) f h =
     (case g (h ! a) of Inl e \<Rightarrow> (Inl e, h) | Inr t \<Rightarrow> f (length h) (h @ [t]))"
  by (simp add: derive_frame_def io_bind_assoc io_bind_read io_bind_lift io_bind_new
      split: sum.splits)

lemma check_required_tables_at:
  "check_required_tables (\<lambda>name. map_option g (tbls name)) required =
   check_required_tables tbls required"
  by (simp add: check_required_tables_def)

lemma bind_simps: "bind (Inr x) f = f x" "bind (Inl e) f = Inl e"
  by (simp_all add: bind_def)

lemma check_required_tables_present:
  "check_required_tables tbls required = Inr u \<longleftrightarrow> (\<forall>name \<in> set required. tbls name \<noteq> None)"
  by (auto simp: check_required_tables_def Let_def filter_empty_conv)

lemmas run_io =
  io_bind_lift io_bind_frame_of io_bind_copy io_bind_merge_of io_bind_merge io_bind_update
  io_bind_return io_bind_read io_bind_derive derive_frame_apply merge_frames_apply
  io_bind_check_column
  io_return_apply io_lift_apply check_required_tables_at
  table_of_def merge_table_def merge_on_def tables_at_def nth_append bind_simps

lemma catalog_io_result:
  assumes "valid_frames h tbls"
  shows "frame_result (catalog_io tbls) h = catalog (tables_at h tbls)"
proof (cases "check_required_tables tbls [''track'', ''album'', ''artist'', ''genre'', ''mediatype'']")
  case (Inl e)
  then show ?thesis
    by (simp add: frame_result_def catalog_io_def catalog_def run_io)
next
  case (Inr u)
  then obtain a0 a1 a2 a3 a4 where t: "tbls ''track'' = Some a0" "tbls ''album'' = Some a1"
    "tbls ''artist'' = Some a2" "tbls ''genre'' = Some a3" "tbls ''mediatype'' = Some a4"
    by (auto simp: check_required_tables_present)
  with assms have v: "a0 < length h" "a1 < length h" "a2 < length h" "a3 < length h" "a4 < length h"
    by (auto simp: valid_frames_def)
  show ?thesis
    using Inr t v
    by (simp add: frame_result_def catalog_io_def catalog_def run_io split: sum.splits)
qed

lemma sales_line_items_io_result:
  assumes "valid_frames h tbls"
  shows "frame_result (sales_line_items_io pd tbls) h = sales_line_items pd (tables_at h tbls)"
proof (cases "check_required_tables tbls sales_required")
  case (Inl e)
  then show ?thesis
    by (simp add: frame_result_def sales_line_items_io_def sales_line_items_def run_io)
next
  case (Inr u)
  then obtain a0 a1 a2 a3 a4 a5 a6 a7 where t: "tbls ''invoiceline'' = Some a0"
    "tbls ''invoice'' = Some a1" "tbls ''customer'' = Some a2" "tbls ''track'' = Some a3"
    "tbls ''album'' = Some a4" "tbls ''artist'' = Some a5" "tbls ''genre'' = Some a6"
    "tbls ''mediatype'' = Some a7"
    by (auto simp: check_required_tables_present sales_required_def)
  with assms have v: "a0 < length h" "a1 < length h" "a2 < length h" "a3 < length h"
    "a4 < length h" "a5 < length h" "a6 < length h" "a7 < length h"
    by (auto simp: valid_frames_def)
  show ?thesis
    using Inr t v
    by (simp add: frame_result_def sales_line_items_io_def sales_line_items_def sales_joins_def
        Let_def run_io split: sum.splits)
qed

lemma customers_dim_io_result:
  assumes "valid_frames h tbls"
  shows "frame_result (customers_dim_io tbls) h = customers_dim (tables_at h tbls)"
proof (cases "check_required_tables tbls [''customer'', ''employee'']")
  case (Inl e)
  then show ?thesis
    by (simp add: frame_result_def customers_dim_io_def customers_dim_def run_io)
next
  case (Inr u)
  then obtain a0 a1 where t: "tbls ''customer'' = Some a0" "tbls ''employee'' = Some a1"
    by (auto simp: check_required_tables_present)
  with assms have v: "a0 < length h" "a1 < length h"
    by (auto simp: valid_frames_def)
  show ?thesis
    using Inr t v
    by (simp add: frame_result_def customers_dim_io_def customers_dim_def run_io split: sum.splits)
qed


lemma ChinookAnalyzer_io_result:
  assumes "sales < length h" and "\<And>c. cat = Some c \<Longrightarrow> c < length h"
  shows "analyzer_result (ChinookAnalyzer_io pd sales cat) h =
         ChinookAnalyzer pd (h ! sales) (map_option (\<lambda>c. h ! c) cat)"
  using assms
  by (cases cat)
    (simp_all add: analyzer_result_def ChinookAnalyzer_io_def ChinookAnalyzer_def Let_def
      analyzer_at_def io_bind_copy_optional run_io)

lemma revenue_by_month_io_result:
  assumes "valid_analyzer h self"
  shows "frame_result (revenue_by_month_io pd self) h = revenue_by_month pd (analyzer_at h self)"
  using assms
  by (simp add: frame_result_def revenue_by_month_io_def revenue_by_month_def Let_def
      analyzer_at_def valid_analyzer_def run_io bind_def split: sum.splits)

lemma top_by_revenue_io_result:
  assumes "a < length h"
  shows "frame_result (top_by_revenue_io a keys n name) h = top_by_revenue (h ! a) keys n name"
  using assms
  by (simp add: frame_result_def top_by_revenue_io_def top_by_revenue_def run_io bind_def
      split: sum.splits)

lemma frame_result_checked:
  assumes "a < length h"
  shows "frame_result (io_bind (check_column_io a col) (\<lambda>_. m)) h =
         bind (check_column (h ! a) col) (\<lambda>_. frame_result m h)"
  using assms
  by (simp add: frame_result_def io_bind_check_column bind_def split: sum.splits)

lemma top_countries_by_revenue_io_result:
  assumes "valid_analyzer h self"
  shows "frame_result (top_countries_by_revenue_io self n) h =
         top_countries_by_revenue (analyzer_at h self) n"
  using assms
  by (simp add: top_countries_by_revenue_io_def top_countries_by_revenue_def frame_result_checked
      top_by_revenue_io_result valid_analyzer_def analyzer_at_def)

lemma top_genres_by_revenue_io_result:
  assumes "valid_analyzer h self"
  shows "frame_result (top_genres_by_revenue_io self n) h =
         top_genres_by_revenue (analyzer_at h self) n"
  using assms
  by (simp add: top_genres_by_revenue_io_def top_genres_by_revenue_def frame_result_checked
      top_by_revenue_io_result valid_analyzer_def analyzer_at_def)

lemma top_artists_by_revenue_io_result:
  assumes "valid_analyzer h self"
  shows "frame_result (top_artists_by_revenue_io self n) h =
         top_artists_by_revenue (analyzer_at h self) n"
  using assms
  by (simp add: top_artists_by_revenue_io_def top_artists_by_revenue_def frame_result_checked
      top_by_revenue_io_result valid_analyzer_def analyzer_at_def)

lemma customer_lifetime_value_io_result:
  assumes "valid_analyzer h self"
  shows "frame_result (customer_lifetime_value_io self n) h =
         customer_lifetime_value (analyzer_at h self) n"
  using assms
  by (simp add: customer_lifetime_value_io_def customer_lifetime_value_def frame_result_checked
      top_by_revenue_io_result valid_analyzer_def analyzer_at_def)

lemma rfm_analysis_io_result:
  assumes "valid_analyzer h self"
  shows "frame_result (rfm_analysis_io self) h = rfm_analysis (analyzer_at h self)"
  using assms
  by (simp add: frame_result_def rfm_analysis_io_def rfm_analysis_def Let_def set_score_def
      set_rfm_score_def analyzer_at_def valid_analyzer_def run_io bind_def split: sum.splits)

lemma set_columns_word_counts:
  "set_columns [''Word'', ''Frequency''] (word_counts pd cat n stopwords) =
     (let stop = (case stopwords of None \<Rightarrow> default_stopwords | Some s \<Rightarrow> s);
          titles = filter (\<lambda>v. v \<noteq> Null) (column cat ''Name'');
          words = map (\<lambda>v. title_words (to_text pd v)) titles;
          flat_words = filter (\<lambda>w. w \<notin> set stop) (concat words);
          word_counts = head_list n (value_counts flat_words)
      in \<lparr>columns = [''Word'', ''Frequency''],
          rows = map (\<lambda>(w, c). [(''Word'', Str w), (''Frequency'', Num (of_nat c))]) word_counts\<rparr>)"
  by (simp add: set_columns_def word_counts_def Let_def split_def)

lemma top_words_in_track_titles_io_result:
  assumes "valid_analyzer h self"
  shows "frame_result (top_words_in_track_titles_io pd self n stopwords) h =
         top_words_in_track_titles pd (analyzer_at h self) n stopwords"
proof (cases "catalog_ref self")
  case None
  then show ?thesis
    by (simp add: frame_result_def top_words_in_track_titles_io_def top_words_in_track_titles_def
        analyzer_at_def io_lift_apply)
next
  case (Some c)
  with assms have "c < length h" by (simp add: valid_analyzer_def)
  then show ?thesis
    using set_columns_word_counts [of pd "h ! c" n stopwords]
    by (simp add: frame_result_def top_words_in_track_titles_io_def top_words_in_track_titles_def
        analyzer_at_def Some run_io bind_def split: sum.splits)
qed

lemma duration_stats_io_result:
  assumes "valid_analyzer h self"
  shows "fst (duration_stats_io pd self h) = duration_stats pd (analyzer_at h self)"
proof (cases "catalog_ref self")
  case None
  then show ?thesis
    by (simp add: duration_stats_io_def duration_stats_def analyzer_at_def io_lift_apply)
next
  case (Some c)
  with assms have "c < length h" by (simp add: valid_analyzer_def)
  then show ?thesis
    by (simp add: duration_stats_io_def duration_stats_def analyzer_at_def Some run_io bind_def
        split: sum.splits)
qed

section \<open>Operations leave the frames of their caller unchanged\<close>

text \<open>Three kinds of steps: those that read, those that allocate, those that overwrite.\<close>

lemma preserves_reads:
  assumes "\<And>h. snd (m h) = h"
    and "\<And>x. preserves n P (f x) Q"
  shows "preserves n P (io_bind m f) Q"
  unfolding preserves_def io_bind_def
proof (intro allI impI)
  fix h :: store assume n: "n \<le> length h" and P: "P (length h)"
  obtain r h' where m: "m h = (r, h')" by (cases "m h")
  with assms(1) [of h] have h': "h' = h" by simp
  show "case (case m h of (Inl e, h') \<Rightarrow> (Inl e, h') | (Inr x, h') \<Rightarrow> f x h') of
          (r, h') \<Rightarrow> length h \<le> length h' \<and> take n h' = take n h \<and>
            (case r of Inl e \<Rightarrow> True | Inr x \<Rightarrow> Q x (length h'))"
  proof (cases r)
    case (Inl e)
    then show ?thesis by (simp add: m h')
  next
    case (Inr x)
    from assms(2) [of x] n P show ?thesis
      by (simp add: m h' Inr preserves_def)
  qed
qed

lemma preserves_allocates:
  assumes "\<And>h. case m h of (Inl e, h') \<Rightarrow> h' = h | (Inr a, h') \<Rightarrow> a = length h \<and> (\<exists>t. h' = h @ [t])"
    and "\<And>a. preserves n (\<lambda>l. l = Suc a \<and> n \<le> a \<and> P a) (f a) Q"
  shows "preserves n P (io_bind m f) Q"
  unfolding preserves_def io_bind_def
proof (intro allI impI)
  fix h :: store assume n: "n \<le> length h" and P: "P (length h)"
  obtain r h' where m: "m h = (r, h')" by (cases "m h")
  show "case (case m h of (Inl e, h') \<Rightarrow> (Inl e, h') | (Inr x, h') \<Rightarrow> f x h') of
          (r, h') \<Rightarrow> length h \<le> length h' \<and> take n h' = take n h \<and>
            (case r of Inl e \<Rightarrow> True | Inr x \<Rightarrow> Q x (length h'))"
  proof (cases r)
    case (Inl e)
    with assms(1) [of h] m show ?thesis by simp
  next
    case (Inr a)
    with assms(1) [of h] m obtain t where a: "a = length h" and h': "h' = h @ [t]" by auto
    from assms(2) [of a, unfolded preserves_def, rule_format, of h'] n P a h'
    have "case f a h' of (r, h'') \<Rightarrow> length h' \<le> length h'' \<and> take n h'' = take n h' \<and>
            (case r of Inl e \<Rightarrow> True | Inr x \<Rightarrow> Q x (length h''))"
      by simp
    with n show ?thesis
      by (auto simp: m Inr h' split: prod.splits sum.splits)
  qed
qed

lemma preserves_overwrites:
  assumes "\<And>h. \<exists>t. snd (m h) = h \<or> snd (m h) = h[a := t]"
    and "\<And>l. P l \<Longrightarrow> n \<le> l \<Longrightarrow> n \<le> a"
    and "\<And>x. preserves n P (f x) Q"
  shows "preserves n P (io_bind m f) Q"
  unfolding preserves_def io_bind_def
proof (intro allI impI)
  fix h :: store assume n: "n \<le> length h" and P: "P (length h)"
  obtain r h' where m: "m h = (r, h')" by (cases "m h")
  from assms(2) [OF P n] have a: "n \<le> a" .
  from assms(1) [of h] m obtain t where "h' = h \<or> h' = h[a := t]" by auto
  with a have len: "length h' = length h" and tk: "take n h' = take n h" by auto
  show "case (case m h of (Inl e, h') \<Rightarrow> (Inl e, h') | (Inr x, h') \<Rightarrow> f x h') of
          (r, h') \<Rightarrow> length h \<le> length h' \<and> take n h' = take n h \<and>
            (case r of Inl e \<Rightarrow> True | Inr x \<Rightarrow> Q x (length h'))"
  proof (cases r)
    case (Inl e)
    then show ?thesis by (simp add: m len tk)
  next
    case (Inr x)
    from assms(3) [of x, unfolded preserves_def, rule_format, of h'] n P len
    have "case f x h' of (r, h'') \<Rightarrow> length h' \<le> length h'' \<and> take n h'' = take n h' \<and>
            (case r of Inl e \<Rightarrow> True | Inr x \<Rightarrow> Q x (length h''))"
      by simp
    then show ?thesis by (simp add: m Inr len tk split: prod.splits)
  qed
qed

lemma preserves_return:
  assumes "\<And>l. P l \<Longrightarrow> n \<le> l \<Longrightarrow> Q x l"
  shows "preserves n P (io_return x) Q"
  using assms by (simp add: preserves_def io_return_def)

lemma preserves_lift:
  assumes "\<And>x l. m = Inr x \<Longrightarrow> P l \<Longrightarrow> n \<le> l \<Longrightarrow> Q x l"
  shows "preserves n P (io_lift m) Q"
  using assms by (simp add: preserves_def io_lift_def split: sum.splits)

lemma preserves_bind_return:
  assumes "preserves n P (f x) Q"
  shows "preserves n P (io_bind (io_return x) f) Q"
  using assms by (simp add: io_bind_def io_return_def)

text \<open>What each step does to the store.\<close>

lemma reads_lift: "snd (io_lift m h) = h"
  by (simp add: io_lift_def)

lemma reads_read_frame: "snd (read_frame a h) = h"
  by (simp add: read_frame_def)

lemma reads_frame_of: "snd (frame_of tbls name h) = h"
  by (simp add: frame_of_def io_lift_def io_return_def split: option.splits)

lemma reads_check_column_io: "snd (check_column_io a col h) = h"
  by (simp add: check_column_io_def io_bind_def read_frame_def io_lift_def split: sum.splits)

lemma allocates_new_frame:
  "case new_frame t h of (Inl e, h') \<Rightarrow> h' = h | (Inr a, h') \<Rightarrow> a = length h \<and> (\<exists>t. h' = h @ [t])"
  by (simp add: new_frame_def)

lemma allocates_copy_frame:
  "case copy_frame a h of (Inl e, h') \<Rightarrow> h' = h | (Inr a, h') \<Rightarrow> a = length h \<and> (\<exists>t. h' = h @ [t])"
  by (simp add: copy_frame_def io_bind_def read_frame_def new_frame_def)

lemma allocates_derive_frame:
  "case derive_frame a f h of (Inl e, h') \<Rightarrow> h' = h | (Inr a, h') \<Rightarrow> a = length h \<and> (\<exists>t. h' = h @ [t])"
  by (simp add: derive_frame_def io_bind_def read_frame_def new_frame_def io_lift_def
      split: sum.splits)

lemma allocates_merge_frames:
  "case merge_frames a b lk rk sfxs h of
     (Inl e, h') \<Rightarrow> h' = h | (Inr a, h') \<Rightarrow> a = length h \<and> (\<exists>t. h' = h @ [t])"
  by (simp add: merge_frames_def io_bind_def read_frame_def new_frame_def io_lift_def
      split: sum.splits)

lemma allocates_merge_frame_of:
  "case merge_frame_of tbls name k sfxs df h of
     (Inl e, h') \<Rightarrow> h' = h | (Inr a, h') \<Rightarrow> a = length h \<and> (\<exists>t. h' = h @ [t])"
  using allocates_merge_frames [where a = df and lk = k and rk = k and sfxs = sfxs and h = h]
  by (simp add: merge_frame_of_def frame_of_def io_bind_def io_lift_def io_return_def
      split: option.splits)

lemma overwrites_update_frame:
  "\<exists>t. snd (update_frame a f h) = h \<or> snd (update_frame a f h) = h[a := t]"
  by (auto simp: update_frame_def io_bind_def read_frame_def write_frame_def io_lift_def
      split: sum.splits)

lemmas preserves_steps =
  preserves_reads [of "io_lift m" for m, OF reads_lift]
  preserves_reads [of "read_frame a" for a, OF reads_read_frame]
  preserves_reads [of "frame_of tbls name" for tbls name, OF reads_frame_of]
  preserves_reads [of "check_column_io a col" for a col, OF reads_check_column_io]
  preserves_allocates [of "new_frame t" for t, OF allocates_new_frame]
  preserves_allocates [of "copy_frame a" for a, OF allocates_copy_frame]
  preserves_allocates [of "derive_frame a g" for a g, OF allocates_derive_frame]
  preserves_allocates [of "merge_frames a b lk rk sfxs" for a b lk rk sfxs, OF allocates_merge_frames]
  preserves_allocates [of "merge_frame_of tbls name k sfxs df" for tbls name k sfxs df,
    OF allocates_merge_frame_of]
  preserves_overwrites [of "update_frame a g" for a g, OF overwrites_update_frame]
  preserves_bind_return

text \<open>The last step of an operation.\<close>

lemma preserves_allocates_last:
  assumes "\<And>h. case m h of (Inl e, h') \<Rightarrow> h' = h | (Inr a, h') \<Rightarrow> a = length h \<and> (\<exists>t. h' = h @ [t])"
    and "\<And>a. P a \<Longrightarrow> n \<le> a \<Longrightarrow> Q a (Suc a)"
  shows "preserves n P m Q"
  unfolding preserves_def
proof (intro allI impI)
  fix h :: store assume n: "n \<le> length h" and P: "P (length h)"
  obtain r h' where m: "m h = (r, h')" by (cases "m h")
  show "case m h of (r, h') \<Rightarrow> length h \<le> length h' \<and> take n h' = take n h \<and>
            (case r of Inl e \<Rightarrow> True | Inr x \<Rightarrow> Q x (length h'))"
  proof (cases r)
    case (Inl e)
    with assms(1) [of h] m show ?thesis by simp
  next
    case (Inr a)
    with assms(1) [of h] m obtain t where a: "a = length h" and h': "h' = h @ [t]" by auto
    with assms(2) [of a] n P show ?thesis by (simp add: m Inr)
  qed
qed

lemmas preserves_last =
  preserves_allocates_last [of "derive_frame a g" for a g, OF allocates_derive_frame]
  preserves_allocates_last [of "merge_frames a b lk rk sfxs" for a b lk rk sfxs, OF allocates_merge_frames]
  preserves_return preserves_lift

lemma preserves_sales_line_items_io:
  "preserves n (\<lambda>l. True) (sales_line_items_io pd tbls) (fresh n)"
  unfolding sales_line_items_io_def
  by (intro preserves_steps preserves_last) (simp_all add: fresh_def)

lemma preserves_catalog_io:
  "preserves n (\<lambda>l. True) (catalog_io tbls) (fresh n)"
  unfolding catalog_io_def
  by (intro preserves_steps preserves_last) (simp_all add: fresh_def)

lemma preserves_customers_dim_io:
  "preserves n (\<lambda>l. True) (customers_dim_io tbls) (fresh n)"
  unfolding customers_dim_io_def
  apply (intro preserves_steps)
  apply (simp split: if_splits)
  apply (intro conjI impI preserves_steps preserves_last)
  apply (simp_all add: fresh_def)
  done


text \<open>The optional copy of the catalog.\<close>

lemma preserves_copy_optional:
  assumes "\<And>c. preserves n (\<lambda>l. case c of None \<Rightarrow> P l | Some c' \<Rightarrow> l = Suc c' \<and> n \<le> c' \<and> P c')
                   (f c) Q"
  shows "preserves n P (io_bind (copy_optional cat) f) Q"
proof (cases cat)
  case None
  from assms [of None] show ?thesis
    by (simp add: None copy_optional_def preserves_bind_return)
next
  case (Some c)
  have "preserves n P (io_bind (copy_frame c) (\<lambda>c'. io_bind (io_return (Some c')) f)) Q"
  proof (intro preserves_steps)
    fix a
    from assms [of "Some a"]
    show "preserves n (\<lambda>l. l = Suc a \<and> n \<le> a \<and> P a) (f (Some a)) Q" by simp
  qed
  then show ?thesis
    by (simp add: Some copy_optional_def io_bind_assoc)
qed

lemma preserves_ChinookAnalyzer_io:
  "preserves n (\<lambda>l. True) (ChinookAnalyzer_io pd sales cat) (fresh_analyzer n)"
  unfolding ChinookAnalyzer_io_def Let_def
  apply (intro preserves_steps preserves_copy_optional)
  apply (simp only: split: if_splits)
  apply (intro conjI impI preserves_steps preserves_last)
  apply (auto simp: fresh_analyzer_def fresh_def split: option.splits)
  done

lemma preserves_revenue_by_month_io:
  "preserves n (\<lambda>l. True) (revenue_by_month_io pd self) (fresh n)"
  unfolding revenue_by_month_io_def
  by (intro preserves_steps preserves_last) (simp_all add: fresh_def)

lemma preserves_top_by_revenue_io:
  "preserves n (\<lambda>l. True) (top_by_revenue_io a keys k name) (fresh n)"
  unfolding top_by_revenue_io_def
  by (intro preserves_steps preserves_last) (simp_all add: fresh_def)

lemma preserves_checked:
  assumes "preserves n P m Q"
  shows "preserves n P (io_bind (check_column_io a col) (\<lambda>_. m)) Q"
  using assms by (intro preserves_steps)

lemma preserves_rfm_analysis_io:
  "preserves n (\<lambda>l. True) (rfm_analysis_io self) (fresh n)"
  unfolding rfm_analysis_io_def
  by (intro preserves_steps preserves_last) (simp_all add: fresh_def)

lemma preserves_top_words_in_track_titles_io:
  "preserves n (\<lambda>l. True) (top_words_in_track_titles_io pd self k stopwords) (fresh n)"
proof (cases "catalog_ref self")
  case None
  then show ?thesis
    by (simp add: top_words_in_track_titles_io_def) (rule preserves_lift, simp)
next
  case (Some c)
  have "preserves n (\<lambda>l. True)
          (io_bind (check_column_io c ''Name'') (\<lambda>_.
           io_bind (derive_frame c (\<lambda>cat. Inr (word_counts pd cat k stopwords))) (\<lambda>counts.
           io_bind (update_frame counts (\<lambda>t. Inr (set_columns [''Word'', ''Frequency''] t))) (\<lambda>_.
           io_return counts)))) (fresh n)"
    by (intro preserves_steps preserves_last) (simp_all add: fresh_def)
  then show ?thesis
    by (simp add: top_words_in_track_titles_io_def Some)
qed

lemma preserves_duration_stats_io:
  "preserves n (\<lambda>l. True) (duration_stats_io pd self) (\<lambda>x l. True)"
proof (cases "catalog_ref self")
  case None
  then show ?thesis
    by (simp add: duration_stats_io_def) (rule preserves_lift, simp)
next
  case (Some c)
  have "preserves n (\<lambda>l. True)
          (io_bind (check_column_io c ''DurationMin'') (\<lambda>_.
           io_bind (read_frame c) (\<lambda>cat.
           io_lift (bind (check_numeric (column cat ''DurationMin'')) (\<lambda>_.
                    Inr (describe pd (column cat ''DurationMin''))))))) (\<lambda>x l. True)"
    by (intro preserves_steps preserves_last) simp_all
  then show ?thesis
    by (simp add: duration_stats_io_def Some)
qed

text \<open>From the invariant to the two properties of an operation.\<close>

lemma preserves_unchanged:
  assumes "preserves (length h) (\<lambda>l. True) m Q"
  shows "unchanged m h"
  using assms [unfolded preserves_def, rule_format, of h]
  by (simp add: unchanged_def split: prod.splits)

lemma preserves_returns_new:
  assumes "preserves (length h) (\<lambda>l. True) m (fresh (length h))"
  shows "returns_new m h"
  using assms [unfolded preserves_def, rule_format, of h]
  by (simp add: returns_new_def fresh_def split: prod.splits sum.splits)

lemma preserves_owns_copies:
  assumes "preserves (length h) (\<lambda>l. True) m (fresh_analyzer (length h))"
  shows "owns_copies m h"
  using assms [unfolded preserves_def, rule_format, of h]
  by (simp add: owns_copies_def fresh_analyzer_def fresh_def split: prod.splits sum.splits option.splits)

lemmas preserves_top =
  preserves_checked [OF preserves_top_by_revenue_io]

text \<open>
  Claim C8. No operation of the Modeler or of the Analyzer changes a frame that existed
  when it was called: run from any store \<open>h\<close>, with any dictionary of tables, any sales
  and catalog frames and any analyzer object, \<open>sales_line_items\<close>, \<open>catalog\<close>,
  \<open>customers_dim\<close>, the constructor of the Analyzer and each of its methods leave every
  frame of \<open>h\<close> as it was, whether they return or raise. The frame that a method returns
  is a new one, and so are the two frames that a new analyzer holds: the assignments
  \<open>df[c] = ...\<close> and \<open>rename(..., inplace=True)\<close> of the source act on frames that the
  call itself has made.
\<close>

theorem operations_leave_frames_unchanged:
  "unchanged (sales_line_items_io pd tbls) h \<and> returns_new (sales_line_items_io pd tbls) h \<and>
   unchanged (catalog_io tbls) h \<and> returns_new (catalog_io tbls) h \<and>
   unchanged (customers_dim_io tbls) h \<and> returns_new (customers_dim_io tbls) h \<and>
   unchanged (ChinookAnalyzer_io pd sales cat) h \<and> owns_copies (ChinookAnalyzer_io pd sales cat) h \<and>
   unchanged (revenue_by_month_io pd self) h \<and> returns_new (revenue_by_month_io pd self) h \<and>
   unchanged (top_countries_by_revenue_io self n) h \<and>
   returns_new (top_countries_by_revenue_io self n) h \<and>
   unchanged (top_genres_by_revenue_io self n) h \<and>
   returns_new (top_genres_by_revenue_io self n) h \<and>
   unchanged (top_artists_by_revenue_io self n) h \<and>
   returns_new (top_artists_by_revenue_io self n) h \<and>
   unchanged (customer_lifetime_value_io self n) h \<and>
   returns_new (customer_lifetime_value_io self n) h \<and>
   unchanged (rfm_analysis_io self) h \<and> returns_new (rfm_analysis_io self) h \<and>
   unchanged (top_words_in_track_titles_io pd self n stopwords) h \<and>
   returns_new (top_words_in_track_titles_io pd self n stopwords) h \<and>
   unchanged (duration_stats_io pd self) h"
  unfolding top_countries_by_revenue_io_def top_genres_by_revenue_io_def
    top_artists_by_revenue_io_def customer_lifetime_value_io_def
  by (intro conjI; rule preserves_unchanged preserves_returns_new preserves_owns_copies;
      rule preserves_sales_line_items_io preserves_catalog_io preserves_customers_dim_io
        preserves_ChinookAnalyzer_io preserves_revenue_by_month_io preserves_top
        preserves_rfm_analysis_io preserves_top_words_in_track_titles_io
        preserves_duration_stats_io)

text \<open>
  Claim C8, on the example tables. \<open>sales_line_items\<close> returns the frame 18 and the
  constructor an analyzer that holds the frames 10 and 11; the ten frames of the store
  are as before, and frame 10, the copy of the sales frame 8, has got its invoice dates
  coerced while frame 8 has not.
\<close>

theorem operations_leave_frames_unchanged_witness:
  "fst (sales_line_items_io example_pandas example_frames example_store) = Inr 18 \<and>
   take 10 (snd (sales_line_items_io example_pandas example_frames example_store)) = example_store \<and>
   fst (ChinookAnalyzer_io example_pandas 8 (Some 9) example_store) =
     Inr \<lparr>sales_ref = 10, catalog_ref = Some 11\<rparr> \<and>
   take 10 (snd (ChinookAnalyzer_io example_pandas 8 (Some 9) example_store)) = example_store \<and>
   snd (ChinookAnalyzer_io example_pandas 8 (Some 9) example_store) ! 10 \<noteq> example_store ! 8"
proof -
  have len: "length example_store = 10"
    by (simp add: example_store_def sales_required_def)
  note t = operations_leave_frames_unchanged [where pd = example_pandas and tbls = example_frames
      and h = example_store and sales = 8 and cat = "Some 9"
      and self = "\<lparr>sales_ref = 8, catalog_ref = Some 9\<rparr>" and n = 5 and stopwords = None]
  from t have "unchanged (sales_line_items_io example_pandas example_frames) example_store"
    by (elim conjE)
  then have 1: "take 10 (snd (sales_line_items_io example_pandas example_frames example_store)) =
      example_store"
    by (simp add: unchanged_def len)
  from t have "unchanged (ChinookAnalyzer_io example_pandas 8 (Some 9)) example_store"
    by (elim conjE)
  then have 2: "take 10 (snd (ChinookAnalyzer_io example_pandas 8 (Some 9) example_store)) =
      example_store"
    by (simp add: unchanged_def len)
  have 3: "fst (sales_line_items_io example_pandas example_frames example_store) = Inr 18"
    by code_simp
  have 4: "fst (ChinookAnalyzer_io example_pandas 8 (Some 9) example_store) =
     Inr \<lparr>sales_ref = 10, catalog_ref = Some 11\<rparr>"
    by code_simp
  have 5: "snd (ChinookAnalyzer_io example_pandas 8 (Some 9) example_store) ! 10 \<noteq> example_store ! 8"
    by code_simp
  from 1 2 3 4 5 show ?thesis by (intro conjI)
qed

end
